theory Spec2Isabelle
  imports Complex_Main
begin

section \<open>Tensors, errors and the language-model collaborator\<close>

text \<open>
  The file under verification is \<^verbatim>\<open>model/downstream.py\<close>: three prediction heads
  (\<^verbatim>\<open>ClozeModel\<close>, \<^verbatim>\<open>VerbalizerModel\<close>, \<^verbatim>\<open>PoolingModel\<close>) around a language model
  that is passed in at construction time.

  A tensor is what the tensor engine stores for a contiguous tensor: its shape and its
  entries in row-major order. The rank of a tensor is the length of its shape. Entries of
  floating-point tensors are real numbers: tensors handed in by the caller and by the
  language model hold finite values, and arithmetic on them is exact (rounding is not
  part of this development). Integer tensors hold \<^typ>\<open>int\<close>; the values that occur
  as indices are far from the bounds of 64-bit integers.
\<close>

datatype 'a tensor = Tensor (shape: "nat list") (data: "'a list")

definition wf_tensor :: "'a tensor \<Rightarrow> bool" where
  "wf_tensor t = (length (data t) = prod_list (shape t))"

text \<open>
  Reading a tensor: \<open>at2 t r j\<close> is the entry \<open>t[r, j]\<close> of a tensor of rank 2,
  \<open>at3 t r p v\<close> the entry \<open>t[r, p, v]\<close> of a tensor of rank 3, \<open>row_at t r\<close> the
  entries of \<open>t[r]\<close> and \<open>vec_at t r s\<close> those of \<open>t[r, s]\<close>, for indices within the
  sizes.
\<close>

definition at2 :: "'a tensor \<Rightarrow> nat \<Rightarrow> nat \<Rightarrow> 'a" where
  "at2 t r j = data t ! (r * (shape t ! 1) + j)"

definition at3 :: "'a tensor \<Rightarrow> nat \<Rightarrow> nat \<Rightarrow> nat \<Rightarrow> 'a" where
  "at3 t r p v = data t ! ((r * (shape t ! 1) + p) * (shape t ! 2) + v)"

definition row_at :: "'a tensor \<Rightarrow> nat \<Rightarrow> 'a list" where
  "row_at t r = (let K = prod_list (tl (shape t)) in take K (drop (r * K) (data t)))"

definition vec_at :: "'a tensor \<Rightarrow> nat \<Rightarrow> nat \<Rightarrow> 'a list" where
  "vec_at t r s =
     (let K = prod_list (drop 2 (shape t))
      in take K (drop ((r * (shape t ! 1) + s) * K) (data t)))"

text \<open>
  The exceptions a forward call can end in. \<open>AssertionError\<close> and
  \<open>NotImplementedError\<close> are raised by the source itself, \<open>IndexError\<close> and
  \<open>RuntimeError\<close> by the tensor engine (an index out of range; a reshape or a matrix
  product whose sizes do not fit). \<open>OutsideModel\<close> is no exception of the source: it marks
  a combination of shapes on which the tensor engine would broadcast or fail in ways this
  development does not describe. No theorem below says anything about such a call.
\<close>

datatype error = AssertionError | NotImplementedError | IndexError | RuntimeError | OutsideModel

definition ebind :: "error + 'a \<Rightarrow> ('a \<Rightarrow> error + 'b) \<Rightarrow> error + 'b" where
  "ebind x f = (case x of Inl e \<Rightarrow> Inl e | Inr v \<Rightarrow> f v)"

text \<open>
  The language model takes \<open>(input_ids, position_ids, attention_mask)\<close> and returns
  \<open>(outputs, *mems)\<close>, or raises. A forward call is described by its result together
  with the list of argument triples the language model was invoked on, in order.
\<close>

type_synonym lm_call = "int tensor \<times> int tensor \<times> int tensor"

type_synonym 'm language_model =
  "int tensor \<Rightarrow> int tensor \<Rightarrow> int tensor \<Rightarrow> error + (real tensor \<times> 'm list)"

subsection \<open>Reshaping\<close>

text \<open>
  \<^verbatim>\<open>t.reshape(-1, *rest)\<close> and \<^verbatim>\<open>t.view(-1, *rest)\<close> on a contiguous tensor: the
  entries stay as they are and the leading size is inferred. The engine refuses when the
  product of \<open>rest\<close> is zero (the inferred size is ambiguous) or does not divide the
  number of entries.
\<close>

definition reshape_infer :: "'a tensor \<Rightarrow> nat list \<Rightarrow> error + 'a tensor" where
  "reshape_infer t rest =
     (let n = prod_list (shape t); p = prod_list rest
      in if 0 < p \<and> n mod p = 0 then Inr (Tensor ((n div p) # rest) (data t))
         else Inl RuntimeError)"

text \<open>\<^verbatim>\<open>t.size(-1)\<close>: the last size; a tensor of rank 0 has none.\<close>

definition size_last :: "'a tensor \<Rightarrow> error + nat" where
  "size_last t = (if shape t = [] then Inl IndexError else Inr (last (shape t)))"

text \<open>\<^verbatim>\<open>t.reshape(-1, t.size(-1))\<close>.\<close>

definition flatten_last :: "'a tensor \<Rightarrow> error + 'a tensor" where
  "flatten_last t = ebind (size_last t) (\<lambda>k. reshape_infer t [k])"

text \<open>\<^verbatim>\<open>t.reshape(-1, *t.size()[2:])\<close>.\<close>

definition flatten_lead :: "'a tensor \<Rightarrow> error + 'a tensor" where
  "flatten_lead t = reshape_infer t (drop 2 (shape t))"

subsection \<open>Indexing\<close>

text \<open>
  An entry of an index tensor addresses a dimension of size \<open>n\<close> when it lies in
  \<open>[-n, n)\<close>; a negative index counts from the end.
\<close>

definition index_ok :: "nat \<Rightarrow> int \<Rightarrow> bool" where
  "index_ok n i = (- int n \<le> i \<and> i < int n)"

definition norm_index :: "nat \<Rightarrow> int \<Rightarrow> nat" where
  "norm_index n i = nat (if i < 0 then i + int n else i)"

text \<open>
  \<^verbatim>\<open>outputs[torch.arange(outputs.size(0)), idx]\<close>: from row \<open>r\<close> of
  \<open>outputs\<close> the slice at position \<open>idx[r]\<close> of the second dimension. The index
  tensor is taken to have one entry per row.
\<close>

definition index_rows :: "'a tensor \<Rightarrow> int tensor \<Rightarrow> error + 'a tensor" where
  "index_rows outputs idx =
     (if length (shape outputs) < 2 then Inl IndexError
      else let N0 = shape outputs ! 0; L0 = shape outputs ! 1;
               K = prod_list (drop 2 (shape outputs))
           in if shape idx \<noteq> [N0] then Inl OutsideModel
              else if \<not> list_all (\<lambda>r. index_ok L0 (data idx ! r)) [0..<N0] then Inl IndexError
              else Inr (Tensor (N0 # drop 2 (shape outputs))
                     (concat (map (\<lambda>r. take K (drop ((r * L0 + norm_index L0 (data idx ! r)) * K)
                                                  (data outputs))) [0..<N0]))))"

text \<open>\<^verbatim>\<open>outputs[:, 0]\<close>.\<close>

definition index_first :: "'a tensor \<Rightarrow> error + 'a tensor" where
  "index_first outputs =
     (if length (shape outputs) < 2 then Inl IndexError
      else let N0 = shape outputs ! 0; L0 = shape outputs ! 1;
               K = prod_list (drop 2 (shape outputs))
           in if L0 = 0 then Inl IndexError
              else Inr (Tensor (N0 # drop 2 (shape outputs))
                     (concat (map (\<lambda>r. take K (drop (r * L0 * K) (data outputs))) [0..<N0]))))"

section \<open>ClozeModel\<close>

text \<open>
  The one operation of the source whose result can leave the finite numbers although its
  arguments are finite is the division of line 49 (and, before it, the power of a
  negative base). The tensor engine raises nothing there: it returns an infinity or a
  not-a-number. Scores are therefore values of \<open>tfloat\<close>.
\<close>

datatype tfloat = Fin real | PInf | NInf | NaN

text \<open>\<^verbatim>\<open>b ** e\<close> on finite arguments.\<close>

definition fpow :: "real \<Rightarrow> real \<Rightarrow> tfloat" where
  "fpow b e =
     (if 0 < b then Fin (b powr e)
      else if b = 0 then (if 0 < e then Fin 0 else if e = 0 then Fin 1 else PInf)
      else if e = of_int \<lfloor>e\<rfloor> then Fin (b powi \<lfloor>e\<rfloor>)
      else NaN)"

text \<open>\<^verbatim>\<open>a / d\<close> for a finite \<open>a\<close>.\<close>

fun fdiv :: "real \<Rightarrow> tfloat \<Rightarrow> tfloat" where
  "fdiv a (Fin b) =
     (if b \<noteq> 0 then Fin (a / b) else if 0 < a then PInf else if a < 0 then NInf else NaN)"
| "fdiv a PInf = Fin 0"
| "fdiv a NInf = Fin 0"
| "fdiv a NaN = NaN"

record ClozeModel =
  take_softmax :: bool
  length_penalty :: real

text \<open>\<^verbatim>\<open>torch.nn.functional.log_softmax(outputs, dim=-1)\<close>.\<close>

definition log_softmax :: "real tensor \<Rightarrow> real tensor" where
  "log_softmax t =
     (let V = (if shape t = [] then 1 else last (shape t))
      in Tensor (shape t)
           (map (\<lambda>i. data t ! i - ln (\<Sum>j\<leftarrow>[0..<V]. exp (data t ! ((i div V) * V + j))))
              [0..<length (data t)]))"

text \<open>
  Lines 42 to 46, \<^verbatim>\<open>outputs[batch_ids, seq_ids, target_ids]\<close>: \<open>batch_ids\<close> and
  \<open>seq_ids\<close> are the row and column numbers of \<open>target_ids\<close>, so entry \<open>[r, p]\<close>
  of the result is \<open>outputs[r, p, target_ids[r, p]]\<close>. Every index is checked against
  the size of its dimension.
\<close>

definition gather_targets :: "'a tensor \<Rightarrow> int tensor \<Rightarrow> error + 'a tensor" where
  "gather_targets outputs target_ids =
     (if length (shape target_ids) \<noteq> 2 \<or> length (shape outputs) \<noteq> 3 then Inl OutsideModel
      else let N = shape target_ids ! 0; Lt = shape target_ids ! 1;
               N0 = shape outputs ! 0; L0 = shape outputs ! 1; V = shape outputs ! 2
           in if \<not> list_all (\<lambda>i. i div Lt < N0 \<and> i mod Lt < L0
                                   \<and> index_ok V (data target_ids ! i)) [0..<N * Lt]
              then Inl IndexError
              else Inr (Tensor [N, Lt]
                     (map (\<lambda>i. data outputs ! (((i div Lt) * L0 + i mod Lt) * V
                                                + norm_index V (data target_ids ! i)))
                        [0..<N * Lt])))"

text \<open>\<^verbatim>\<open>a * b\<close> on tensors of one shape.\<close>

definition tmul :: "real tensor \<Rightarrow> real tensor \<Rightarrow> error + real tensor" where
  "tmul a b =
     (if shape a = shape b then Inr (Tensor (shape a) (map2 (*) (data a) (data b)))
      else Inl OutsideModel)"

text \<open>\<^verbatim>\<open>t.sum(dim=1)\<close> on a tensor of rank 2.\<close>

definition sum_dim1 :: "real tensor \<Rightarrow> error + real tensor" where
  "sum_dim1 t =
     (if length (shape t) < 2 then Inl IndexError
      else if length (shape t) \<noteq> 2 then Inl OutsideModel
      else let N = shape t ! 0; Lt = shape t ! 1
           in Inr (Tensor [N] (map (\<lambda>r. \<Sum>p\<leftarrow>[0..<Lt]. data t ! (r * Lt + p)) [0..<N])))"

text \<open>\<^verbatim>\<open>t ** e\<close> and \<^verbatim>\<open>a / d\<close> on tensors.\<close>

definition tpow :: "real tensor \<Rightarrow> real \<Rightarrow> tfloat tensor" where
  "tpow t e = Tensor (shape t) (map (\<lambda>b. fpow b e) (data t))"

definition tdiv :: "real tensor \<Rightarrow> tfloat tensor \<Rightarrow> error + tfloat tensor" where
  "tdiv a d =
     (if shape a = shape d then Inr (Tensor (shape a) (map2 fdiv (data a) (data d)))
      else Inl OutsideModel)"

definition finite_tensor :: "real tensor \<Rightarrow> tfloat tensor" where
  "finite_tensor t = Tensor (shape t) (map Fin (data t))"

text \<open>Lines 32 to 38: the choice dimension of a 3-D batch is folded into the rows.\<close>

definition cloze_flatten ::
  "int tensor \<Rightarrow> int tensor \<Rightarrow> int tensor \<Rightarrow> int tensor \<Rightarrow> real tensor
     \<Rightarrow> error + (nat option \<times> int tensor \<times> int tensor \<times> int tensor \<times> int tensor \<times> real tensor)" where
  "cloze_flatten input_ids position_ids attention_mask target_ids logit_mask =
     (if length (shape input_ids) = 3 then
        ebind (flatten_last input_ids) (\<lambda>input_ids'.
        ebind (flatten_lead attention_mask) (\<lambda>attention_mask'.
        ebind (flatten_lead position_ids) (\<lambda>position_ids'.
        ebind (flatten_last target_ids) (\<lambda>target_ids'.
        ebind (flatten_last logit_mask) (\<lambda>logit_mask'.
        Inr (Some (shape input_ids ! 1), input_ids', position_ids', attention_mask',
             target_ids', logit_mask'))))))
      else Inr (None, input_ids, position_ids, attention_mask, target_ids, logit_mask))"

text \<open>Lines 40 to 47: the masked sum of the gathered entries, one per row.\<close>

definition cloze_logits ::
  "ClozeModel \<Rightarrow> real tensor \<Rightarrow> int tensor \<Rightarrow> real tensor \<Rightarrow> error + real tensor" where
  "cloze_logits self outputs target_ids logit_mask =
     ebind (gather_targets (if take_softmax self then log_softmax outputs else outputs)
              target_ids) (\<lambda>logits.
     ebind (tmul logits logit_mask) sum_dim1)"

text \<open>Lines 48 and 49.\<close>

definition cloze_normalize ::
  "ClozeModel \<Rightarrow> real tensor \<Rightarrow> real tensor \<Rightarrow> error + tfloat tensor" where
  "cloze_normalize self logits logit_mask =
     (if 0 < length_penalty self
      then ebind (sum_dim1 logit_mask) (\<lambda>s. tdiv logits (tpow s (length_penalty self)))
      else Inr (finite_tensor logits))"

text \<open>Lines 50 and 51, \<^verbatim>\<open>logits.view(-1, num_choices)\<close>.\<close>

definition unflatten :: "nat option \<Rightarrow> 'a tensor \<Rightarrow> error + 'a tensor" where
  "unflatten num_choices logits =
     (case num_choices of None \<Rightarrow> Inr logits | Some c \<Rightarrow> reshape_infer logits [c])"

definition ClozeModel_forward ::
  "ClozeModel \<Rightarrow> 'm language_model \<Rightarrow> int tensor \<Rightarrow> int tensor \<Rightarrow> int tensor \<Rightarrow> int tensor
     \<Rightarrow> real tensor \<Rightarrow> (error + (tfloat tensor \<times> 'm list)) \<times> lm_call list" where
  "ClozeModel_forward self model input_ids position_ids attention_mask target_ids logit_mask =
     (case cloze_flatten input_ids position_ids attention_mask target_ids logit_mask of
        Inl e \<Rightarrow> (Inl e, [])
      | Inr (num_choices, input_ids', position_ids', attention_mask', target_ids', logit_mask') \<Rightarrow>
          (case model input_ids' position_ids' attention_mask' of
             Inl e \<Rightarrow> (Inl e, [(input_ids', position_ids', attention_mask')])
           | Inr (outputs, mems) \<Rightarrow>
               (ebind (cloze_logits self outputs target_ids' logit_mask') (\<lambda>logits.
                ebind (cloze_normalize self logits logit_mask') (\<lambda>logits.
                ebind (unflatten num_choices logits) (\<lambda>logits.
                Inr (logits, mems)))),
                [(input_ids', position_ids', attention_mask')])))"

section \<open>VerbalizerModel\<close>

text \<open>
  \<^verbatim>\<open>output[batch_ids, target_ids]\<close> with \<open>batch_ids\<close> the row numbers expanded to the
  shape of \<open>target_ids\<close>: entry \<open>[r, j]\<close> is \<open>output[r, target_ids[r, j]]\<close>.
  \<open>target_ids\<close> is taken to have one row of candidates per row of \<open>output\<close>.
\<close>

definition gather_candidates :: "'a tensor \<Rightarrow> int tensor \<Rightarrow> error + 'a tensor" where
  "gather_candidates output target_ids =
     (if length (shape output) \<noteq> 2 \<or> length (shape target_ids) \<noteq> 2
         \<or> shape target_ids ! 0 \<noteq> shape output ! 0 then Inl OutsideModel
      else let N0 = shape output ! 0; V = shape output ! 1; K = shape target_ids ! 1
           in if \<not> list_all (\<lambda>i. index_ok V (data target_ids ! i)) [0..<N0 * K]
              then Inl IndexError
              else Inr (Tensor [N0, K]
                     (map (\<lambda>i. data output ! ((i div K) * V + norm_index V (data target_ids ! i)))
                        [0..<N0 * K])))"

text \<open>
  \<^verbatim>\<open>VerbalizerModel.forward\<close>. The assertion is the first statement; the language
  model is invoked once, after it.
\<close>

definition VerbalizerModel_forward ::
  "'m language_model \<Rightarrow> int tensor \<Rightarrow> int tensor \<Rightarrow> int tensor \<Rightarrow> int tensor \<Rightarrow> real tensor
     \<Rightarrow> (error + (real tensor \<times> 'm list)) \<times> lm_call list" where
  "VerbalizerModel_forward model input_ids position_ids attention_mask target_ids logit_mask =
     (if length (shape input_ids) \<noteq> 2 then (Inl AssertionError, [])
      else case model input_ids position_ids attention_mask of
             Inl e \<Rightarrow> (Inl e, [(input_ids, position_ids, attention_mask)])
           | Inr (outputs, mems) \<Rightarrow>
               (ebind (index_rows outputs attention_mask) (\<lambda>output.
                ebind (gather_candidates output target_ids) (\<lambda>output.
                Inr (output, mems))),
                [(input_ids, position_ids, attention_mask)]))"

section \<open>PoolingModel\<close>

text \<open>
  \<^verbatim>\<open>torch.nn.Linear\<close>: \<open>weight\<close> has \<open>out_features\<close> rows of \<open>in_features\<close>
  entries. It is applied along the last dimension of its argument.
\<close>

record linear =
  in_features :: nat
  out_features :: nat
  weight :: "real list list"
  bias :: "real list"

definition linear_apply :: "linear \<Rightarrow> real tensor \<Rightarrow> error + real tensor" where
  "linear_apply lin x =
     (if shape x = [] \<or> last (shape x) \<noteq> in_features lin then Inl RuntimeError
      else let n_in = in_features lin; n_out = out_features lin
           in Inr (Tensor (butlast (shape x) @ [n_out])
                (map (\<lambda>i. (\<Sum>k\<leftarrow>[0..<n_in]. data x ! ((i div n_out) * n_in + k)
                                               * (weight lin ! (i mod n_out) ! k))
                           + bias lin ! (i mod n_out))
                   [0..<prod_list (butlast (shape x)) * n_out])))"

definition tensor_tanh :: "real tensor \<Rightarrow> real tensor" where
  "tensor_tanh t = Tensor (shape t) (map tanh (data t))"

text \<open>
  The attributes of a \<^verbatim>\<open>PoolingModel\<close>. \<open>multichoice_dropout\<close> is what the dropout
  module does to its argument in the call at hand (the identity in evaluation mode).
\<close>

record PoolingModel =
  pool_token :: string
  num_class :: nat
  pool_layer :: linear
  multichoice_dropout :: "real tensor \<Rightarrow> real tensor"
  multichoice_head :: linear

text \<open>\<^verbatim>\<open>attention_mask - 1\<close>.\<close>

definition minus_one :: "int tensor \<Rightarrow> int tensor" where
  "minus_one t = Tensor (shape t) (map (\<lambda>x. x - 1) (data t))"

text \<open>Lines 90 to 99: the position pooled from, by \<open>pool_token\<close>.\<close>

definition pool_select :: "string \<Rightarrow> 'a tensor \<Rightarrow> int tensor \<Rightarrow> error + 'a tensor" where
  "pool_select token outputs attention_mask =
     (if token = ''start'' then index_rows outputs attention_mask
      else if token = ''pad'' then index_rows outputs (minus_one attention_mask)
      else if token = ''cls'' then index_first outputs
      else Inl NotImplementedError)"

text \<open>Lines 83 to 88.\<close>

definition pooling_flatten ::
  "PoolingModel \<Rightarrow> int tensor \<Rightarrow> int tensor \<Rightarrow> int tensor
     \<Rightarrow> error + (nat option \<times> int tensor \<times> int tensor \<times> int tensor)" where
  "pooling_flatten self input_ids position_ids attention_mask =
     (if length (shape input_ids) = 3 then
        (if num_class self \<noteq> 1 then Inl AssertionError
         else
           ebind (flatten_last input_ids) (\<lambda>input_ids'.
           ebind (flatten_lead attention_mask) (\<lambda>attention_mask'.
           ebind (flatten_lead position_ids) (\<lambda>position_ids'.
           Inr (Some (shape input_ids ! 1), input_ids', position_ids', attention_mask')))))
      else Inr (None, input_ids, position_ids, attention_mask))"

text \<open>Lines 100 to 102.\<close>

definition pooling_head :: "PoolingModel \<Rightarrow> real tensor \<Rightarrow> error + real tensor" where
  "pooling_head self output =
     ebind (linear_apply (pool_layer self) output) (\<lambda>h.
     linear_apply (multichoice_head self) (multichoice_dropout self (tensor_tanh h)))"

definition PoolingModel_forward ::
  "PoolingModel \<Rightarrow> 'm language_model \<Rightarrow> int tensor \<Rightarrow> int tensor \<Rightarrow> int tensor
     \<Rightarrow> (error + (real tensor \<times> 'm list)) \<times> lm_call list" where
  "PoolingModel_forward self model input_ids position_ids attention_mask =
     (case pooling_flatten self input_ids position_ids attention_mask of
        Inl e \<Rightarrow> (Inl e, [])
      | Inr (num_choices, input_ids', position_ids', attention_mask') \<Rightarrow>
          (case model input_ids' position_ids' attention_mask' of
             Inl e \<Rightarrow> (Inl e, [(input_ids', position_ids', attention_mask')])
           | Inr (outputs, mems) \<Rightarrow>
               (ebind (pool_select (pool_token self) outputs attention_mask') (\<lambda>output.
                ebind (pooling_head self output) (\<lambda>logits.
                ebind (unflatten num_choices logits) (\<lambda>logits.
                Inr (logits, mems)))),
                [(input_ids', position_ids', attention_mask')])))"

section \<open>Scoring the choices one by one\<close>

text \<open>
  The reference of the choice-independence property, in the words of the specification:
  \<open>select_choice c t\<close> is the slice \<^verbatim>\<open>t[:, c]\<close> of a batch with a choice dimension,
  the batch of choice \<open>c\<close> alone. A language model is row-local, with row function
  \<open>f\<close> and vocabulary size \<open>V\<close>, when on a well-formed batch of rank 2 it returns, and
  row \<open>n\<close> of its output is \<open>f\<close> of row \<open>n\<close> of each of its three arguments.
\<close>

definition select_choice :: "nat \<Rightarrow> 'a tensor \<Rightarrow> 'a tensor" where
  "select_choice c t =
     (let B = shape t ! 0; C = shape t ! 1; K = prod_list (drop 2 (shape t))
      in Tensor (B # drop 2 (shape t))
           (concat (map (\<lambda>b. take K (drop ((b * C + c) * K) (data t))) [0..<B])))"

definition row_local ::
  "'m language_model \<Rightarrow> (int list \<Rightarrow> int list \<Rightarrow> int list \<Rightarrow> real list) \<Rightarrow> nat \<Rightarrow> bool" where
  "row_local model f V =
     ((\<forall>i p a. length (f i p a) = length i * V)
      \<and> (\<forall>inp pos att.
            length (shape inp) = 2 \<and> wf_tensor inp \<and> wf_tensor pos \<and> wf_tensor att
            \<and> shape pos \<noteq> [] \<and> shape pos ! 0 = shape inp ! 0
            \<and> shape att \<noteq> [] \<and> shape att ! 0 = shape inp ! 0 \<longrightarrow>
            (\<exists>mems. model inp pos att =
                Inr (Tensor [shape inp ! 0, shape inp ! 1, V]
                       (concat (map (\<lambda>n. f (row_at inp n) (row_at pos n) (row_at att n))
                                  [0..<shape inp ! 0])),
                     mems))))"

section \<open>Concrete calls\<close>

text \<open>
  A language model that returns the same \<open>[1, 2, 2]\<close> tensor and two memories on every
  call, a batch of one row of two tokens, and heads to run on them. The theorems below are
  instantiated on these.
\<close>

definition example_lm :: "nat language_model" where
  "example_lm input_ids position_ids attention_mask =
     Inr (Tensor [1, 2, 2] [1, 2, 3, 4], [7, 8])"

definition example_input_ids :: "int tensor" where
  "example_input_ids = Tensor [1, 2] [5, 6]"

definition example_input_ids3 :: "int tensor" where
  "example_input_ids3 = Tensor [1, 1, 2] [5, 6]"

definition example_position_ids :: "int tensor" where
  "example_position_ids = Tensor [1, 2] [0, 1]"

definition example_index :: "int \<Rightarrow> int tensor" where
  "example_index i = Tensor [1] [i]"

definition example_target_ids :: "int tensor" where
  "example_target_ids = Tensor [1, 2] [1, -2]"

definition example_logit_mask :: "real \<Rightarrow> real \<Rightarrow> real tensor" where
  "example_logit_mask a b = Tensor [1, 2] [a, b]"

definition example_pooling :: "string \<Rightarrow> nat \<Rightarrow> PoolingModel" where
  "example_pooling token n =
     \<lparr>pool_token = token, num_class = n,
      pool_layer = \<lparr>in_features = 2, out_features = 2, weight = [[1, 0], [0, 1]], bias = [0, 0]\<rparr>,
      multichoice_dropout = (\<lambda>t. t),
      multichoice_head = \<lparr>in_features = 2, out_features = 1, weight = [[1, 1]], bias = [5]\<rparr>\<rparr>"

text \<open>
  A row-local language model with a vocabulary of two, and a batch of one row with two
  choices of one token each.
\<close>

definition example_row_fn :: "int list \<Rightarrow> int list \<Rightarrow> int list \<Rightarrow> real list" where
  "example_row_fn i p a = concat (map (\<lambda>tok. [of_int tok, of_int (sum_list p + sum_list a)]) i)"

definition example_row_lm :: "nat language_model" where
  "example_row_lm inp pos att =
     Inr (Tensor [shape inp ! 0, shape inp ! 1, 2]
            (concat (map (\<lambda>n. example_row_fn (row_at inp n) (row_at pos n) (row_at att n))
                       [0..<shape inp ! 0])),
          [])"

definition choice_input_ids :: "int tensor" where
  "choice_input_ids = Tensor [1, 2, 1] [5, 6]"

definition choice_position_ids :: "int tensor" where
  "choice_position_ids = Tensor [1, 2, 1] [0, 0]"

definition choice_attention_mask :: "int tensor" where
  "choice_attention_mask = Tensor [1, 2] [1, 2]"

definition choice_target_ids :: "int tensor" where
  "choice_target_ids = Tensor [1, 2, 1] [0, 1]"

definition choice_logit_mask :: "real tensor" where
  "choice_logit_mask = Tensor [1, 2, 1] [1, 1]"

section \<open>Auxiliary facts\<close>

subsection \<open>Error propagation and the shape of a successful call\<close>

lemma ebind_eq_Inr: "ebind x f = Inr y \<longleftrightarrow> (\<exists>v. x = Inr v \<and> f v = Inr y)"
  by (cases x) (simp_all add: ebind_def)

lemma ClozeModel_forward_Inr:
  "ClozeModel_forward self model a b c d e = (Inr (S, mems), tr) \<longleftrightarrow>
     (\<exists>nc inp pos att tgt msk outputs raw nrm.
        cloze_flatten a b c d e = Inr (nc, inp, pos, att, tgt, msk)
        \<and> model inp pos att = Inr (outputs, mems) \<and> tr = [(inp, pos, att)]
        \<and> cloze_logits self outputs tgt msk = Inr raw
        \<and> cloze_normalize self raw msk = Inr nrm
        \<and> unflatten nc nrm = Inr S)"
  by (auto simp: ClozeModel_forward_def ebind_eq_Inr split: sum.splits prod.splits)

lemma VerbalizerModel_forward_Inr:
  "VerbalizerModel_forward model a b c d e = (Inr (S, mems), tr) \<longleftrightarrow>
     (\<exists>outputs sel.
        length (shape a) = 2
        \<and> model a b c = Inr (outputs, mems) \<and> tr = [(a, b, c)]
        \<and> index_rows outputs c = Inr sel
        \<and> gather_candidates sel d = Inr S)"
  by (auto simp: VerbalizerModel_forward_def ebind_eq_Inr split: sum.splits prod.splits)

lemma PoolingModel_forward_Inr:
  "PoolingModel_forward self model a b c = (Inr (S, mems), tr) \<longleftrightarrow>
     (\<exists>nc inp pos att outputs sel logits.
        pooling_flatten self a b c = Inr (nc, inp, pos, att)
        \<and> model inp pos att = Inr (outputs, mems) \<and> tr = [(inp, pos, att)]
        \<and> pool_select (pool_token self) outputs att = Inr sel
        \<and> pooling_head self sel = Inr logits
        \<and> unflatten nc logits = Inr S)"
  by (auto simp: PoolingModel_forward_def ebind_eq_Inr split: sum.splits prod.splits)

subsection \<open>Row-major arithmetic\<close>

lemma flat_index_less: "r < N \<Longrightarrow> j < K \<Longrightarrow> r * K + j < N * (K::nat)"
proof -
  assume a: "r < N" "j < K"
  have "r * K + j < (r + 1) * K" using a(2) by (simp add: algebra_simps)
  also have "\<dots> \<le> N * K" using a(1) by (intro mult_le_mono1) simp
  finally show ?thesis .
qed

lemma block_in_range: "r < N \<Longrightarrow> s < L \<Longrightarrow> (r * L + s) * K + K \<le> N * L * (K::nat)"
proof -
  assume a: "r < N" "s < L"
  have "r * L + s + 1 \<le> N * L" using flat_index_less [OF a] by simp
  then have "(r * L + s + 1) * K \<le> N * L * K" by (intro mult_le_mono1)
  then show ?thesis by (simp add: algebra_simps)
qed

lemma rank2_shape: "length s = 2 \<Longrightarrow> s = [s ! 0, s ! 1]"
  by (cases s; cases "tl s") auto

lemma rank3_shape: "length s = 3 \<Longrightarrow> s = [s ! 0, s ! 1, s ! 2]"
  by (cases s; cases "tl s"; cases "tl (tl s)") auto

lemma prod_rank2: "length s = 2 \<Longrightarrow> prod_list s = s ! 0 * s ! 1" for s :: "nat list"
  by (cases s; cases "tl s") auto

lemma prod_shape_rank2:
  "2 \<le> length s \<Longrightarrow> prod_list s = s ! 0 * s ! 1 * prod_list (drop 2 s)" for s :: "nat list"
  by (cases s; cases "tl s") auto

lemma norm_index_less: "index_ok n i \<Longrightarrow> norm_index n i < n"
  by (auto simp: index_ok_def norm_index_def)

lemma map2_upt:
  "length xs = n \<Longrightarrow> length ys = n \<Longrightarrow> map2 f xs ys = map (\<lambda>i. f (xs ! i) (ys ! i)) [0..<n]"
  by (rule nth_equalityI) auto

subsection \<open>Concatenated blocks of one length\<close>

lemma concat_upt_length:
  "(\<And>r. r < n \<Longrightarrow> length (g r) = K) \<Longrightarrow> length (concat (map g [0..<n])) = n * K"
  by (induction n) simp_all

lemma concat_upt_row:
  assumes "\<And>r. r < n \<Longrightarrow> length (g r) = K" and "r < n"
  shows "take K (drop (r * K) (concat (map g [0..<n]))) = g r"
  using assms
proof (induction n)
  case 0
  then show ?case by simp
next
  case (Suc n)
  have len: "length (concat (map g [0..<n])) = n * K"
    using Suc.prems(1) by (intro concat_upt_length) simp
  show ?case
  proof (cases "r < n")
    case True
    then have "(r + 1) * K \<le> n * K" by (intro mult_le_mono1) simp
    then have "r * K + K \<le> n * K" by (simp add: algebra_simps)
    with Suc.IH [OF _ True] Suc.prems(1) len show ?thesis by simp
  next
    case False
    with Suc.prems(2) have "r = n" by simp
    with len Suc.prems(1) [of n] show ?thesis by simp
  qed
qed

lemma concat_upt_nth:
  assumes "\<And>r. r < n \<Longrightarrow> length (g r) = K" and "r < n" and "k < K"
  shows "concat (map g [0..<n]) ! (r * K + k) = g r ! k"
proof -
  have "r * K + k < n * K" using flat_index_less [OF assms(2,3)] .
  then have "r * K + k < length (concat (map g [0..<n]))"
    using concat_upt_length [OF assms(1)] by simp
  then have "take K (drop (r * K) (concat (map g [0..<n]))) ! k
      = concat (map g [0..<n]) ! (r * K + k)"
    using assms(3) by simp
  then show ?thesis using concat_upt_row [OF assms(1) assms(2)] by simp
qed

subsection \<open>Reshaping keeps the entries\<close>

lemma reshape_infer_Inr:
  assumes "reshape_infer t rest = Inr t'"
  shows "data t' = data t" and "shape t' = (prod_list (shape t) div prod_list rest) # rest"
    and "0 < prod_list rest" and "prod_list (shape t') = prod_list (shape t)"
    and "wf_tensor t \<Longrightarrow> wf_tensor t'"
  using assms by (auto simp: reshape_infer_def Let_def wf_tensor_def split: if_splits)

lemma unflatten_data: "unflatten nc t = Inr t' \<Longrightarrow> data t' = data t"
  by (cases nc) (auto simp: unflatten_def dest: reshape_infer_Inr(1))

subsection \<open>Slices of a well-formed tensor\<close>

lemma vec_length:
  assumes "wf_tensor t" "2 \<le> length (shape t)" "r < shape t ! 0" "s < shape t ! 1"
  shows "length (take (prod_list (drop 2 (shape t)))
           (drop ((r * (shape t ! 1) + s) * prod_list (drop 2 (shape t))) (data t)))
         = prod_list (drop 2 (shape t))"
  using block_in_range [OF assms(3,4), of "prod_list (drop 2 (shape t))"]
    assms(1) prod_shape_rank2 [OF assms(2)]
  by (simp add: wf_tensor_def)

lemma row_at_nth:
  assumes "wf_tensor t" "shape t = [N, V]" "r < N" "v < V"
  shows "row_at t r ! v = data t ! (r * V + v)"
proof -
  have "r * V \<le> N * V" using assms(3) by (intro mult_le_mono1) simp
  then show ?thesis using assms by (simp add: row_at_def wf_tensor_def)
qed

lemma vec_at_nth:
  assumes "wf_tensor t" "shape t = [N, L, V]" "r < N" "s < L" "v < V"
  shows "vec_at t r s ! v = at3 t r s v"
proof -
  have "(r * L + s) * V + V \<le> N * L * V" using block_in_range [OF assms(3,4)] .
  then have "(r * L + s) * V \<le> N * L * V" by linarith
  then show ?thesis using assms by (simp add: vec_at_def at3_def wf_tensor_def)
qed

lemma index_rows_Inr:
  assumes "index_rows outputs idx = Inr P" and "wf_tensor outputs"
  shows "2 \<le> length (shape outputs) \<and> shape idx = [shape outputs ! 0]
    \<and> shape P = shape outputs ! 0 # drop 2 (shape outputs) \<and> wf_tensor P
    \<and> (\<forall>r<shape outputs ! 0. index_ok (shape outputs ! 1) (data idx ! r)
          \<and> row_at P r = vec_at outputs r (norm_index (shape outputs ! 1) (data idx ! r)))"
proof -
  let ?N = "shape outputs ! 0" and ?L = "shape outputs ! 1"
    and ?K = "prod_list (drop 2 (shape outputs))"
  let ?g = "\<lambda>r. take ?K (drop ((r * ?L + norm_index ?L (data idx ! r)) * ?K) (data outputs))"
  from assms(1) have rk: "2 \<le> length (shape outputs)" and sh: "shape idx = [?N]"
    and ok: "list_all (\<lambda>r. index_ok ?L (data idx ! r)) [0..<?N]"
    and P: "P = Tensor (?N # drop 2 (shape outputs)) (concat (map ?g [0..<?N]))"
    by (auto simp: index_rows_def Let_def split: if_splits)
  have ok': "index_ok ?L (data idx ! r)" if "r < ?N" for r
    using ok that by (simp add: list_all_iff)
  have len: "length (?g r) = ?K" if "r < ?N" for r
    using vec_length [OF assms(2) rk that norm_index_less [OF ok' [OF that]]] .
  have "wf_tensor P"
    using concat_upt_length [of ?N ?g ?K, OF len] by (simp add: P wf_tensor_def)
  moreover have "row_at P r = vec_at outputs r (norm_index ?L (data idx ! r))" if "r < ?N" for r
    using concat_upt_row [of ?N ?g ?K r, OF len that] by (simp add: P row_at_def vec_at_def)
  ultimately show ?thesis using rk sh ok' P by simp
qed

lemma index_first_Inr:
  assumes "index_first outputs = Inr P" and "wf_tensor outputs"
  shows "2 \<le> length (shape outputs) \<and> 0 < shape outputs ! 1
    \<and> shape P = shape outputs ! 0 # drop 2 (shape outputs) \<and> wf_tensor P
    \<and> (\<forall>r<shape outputs ! 0. row_at P r = vec_at outputs r 0)"
proof -
  let ?N = "shape outputs ! 0" and ?L = "shape outputs ! 1"
    and ?K = "prod_list (drop 2 (shape outputs))"
  let ?g = "\<lambda>r. take ?K (drop (r * ?L * ?K) (data outputs))"
  from assms(1) have rk: "2 \<le> length (shape outputs)" and pos: "0 < ?L"
    and P: "P = Tensor (?N # drop 2 (shape outputs)) (concat (map ?g [0..<?N]))"
    by (auto simp: index_first_def Let_def split: if_splits)
  have len: "length (?g r) = ?K" if "r < ?N" for r
    using vec_length [OF assms(2) rk that pos] by simp
  have "wf_tensor P"
    using concat_upt_length [of ?N ?g ?K, OF len] by (simp add: P wf_tensor_def)
  moreover have "row_at P r = vec_at outputs r 0" if "r < ?N" for r
    using concat_upt_row [of ?N ?g ?K r, OF len that] by (simp add: P row_at_def vec_at_def)
  ultimately show ?thesis using rk pos P by simp
qed

section \<open>Preconditions, the pass-through of the memories, unknown pooling modes\<close>

text \<open>
  C7. \<^verbatim>\<open>VerbalizerModel.forward\<close> ends in an assertion error for every \<open>input_ids\<close>
  whose rank is not 2, and \<^verbatim>\<open>PoolingModel.forward\<close> does for every \<open>input_ids\<close> of
  rank 3 when \<open>num_class\<close> is not 1. In both cases the language model has not been invoked
  (the list of its calls is empty) and there is no result. Assertions are taken to be
  enabled.
\<close>

theorem precondition_assertions:
  "(length (shape input_ids) \<noteq> 2 \<longrightarrow>
      VerbalizerModel_forward model input_ids position_ids attention_mask target_ids logit_mask
        = (Inl AssertionError, []))
   \<and> (length (shape input_ids') = 3 \<and> num_class self \<noteq> 1 \<longrightarrow>
      PoolingModel_forward self model' input_ids' position_ids' attention_mask'
        = (Inl AssertionError, []))"
  by (simp add: VerbalizerModel_forward_def PoolingModel_forward_def pooling_flatten_def)

theorem precondition_assertions_witness:
  "length (shape example_input_ids3) \<noteq> 2
   \<and> VerbalizerModel_forward example_lm example_input_ids3 example_position_ids
        (example_index 1) example_target_ids (example_logit_mask 1 1)
      = (Inl AssertionError, [])
   \<and> length (shape example_input_ids3) = 3 \<and> num_class (example_pooling ''cls'' 2) \<noteq> 1
   \<and> PoolingModel_forward (example_pooling ''cls'' 2) example_lm example_input_ids3
        example_position_ids (example_index 1)
      = (Inl AssertionError, [])"
  using precondition_assertions [of example_input_ids3 example_lm example_position_ids
      "example_index 1" example_target_ids "example_logit_mask 1 1" example_input_ids3
      "example_pooling ''cls'' 2" example_lm example_position_ids "example_index 1"]
  by (simp add: example_input_ids3_def example_pooling_def)

text \<open>
  C8. Whenever a forward call of \<^verbatim>\<open>ClozeModel\<close>, \<^verbatim>\<open>VerbalizerModel\<close> or
  \<^verbatim>\<open>PoolingModel\<close> returns, the memories it returns after its primary result are the
  list the language model returned in the one call made to it: the same elements in the
  same order, whatever the flags of the component.
\<close>

theorem aux_state_passthrough:
  "(ClozeModel_forward cself model1 a1 b1 c1 d1 e1 = (Inr (s1, mems1), tr1) \<longrightarrow>
      (\<exists>inp pos att outputs.
         tr1 = [(inp, pos, att)] \<and> model1 inp pos att = Inr (outputs, mems1)))
   \<and> (VerbalizerModel_forward model2 a2 b2 c2 d2 e2 = (Inr (s2, mems2), tr2) \<longrightarrow>
      (\<exists>outputs. tr2 = [(a2, b2, c2)] \<and> model2 a2 b2 c2 = Inr (outputs, mems2)))
   \<and> (PoolingModel_forward pself model3 a3 b3 c3 = (Inr (s3, mems3), tr3) \<longrightarrow>
      (\<exists>inp pos att outputs.
         tr3 = [(inp, pos, att)] \<and> model3 inp pos att = Inr (outputs, mems3)))"
  unfolding ClozeModel_forward_Inr VerbalizerModel_forward_Inr PoolingModel_forward_Inr
  by blast

theorem aux_state_passthrough_witness:
  "ClozeModel_forward \<lparr>take_softmax = False, length_penalty = 0\<rparr> example_lm example_input_ids
       example_position_ids (example_index 1) example_target_ids (example_logit_mask 1 1)
     = (Inr (Tensor [1] [Fin 5], [7, 8]),
        [(example_input_ids, example_position_ids, example_index 1)])
   \<and> VerbalizerModel_forward example_lm example_input_ids example_position_ids
        (example_index 1) example_target_ids (example_logit_mask 1 1)
     = (Inr (Tensor [1, 2] [4, 3], [7, 8]),
        [(example_input_ids, example_position_ids, example_index 1)])
   \<and> PoolingModel_forward (example_pooling ''cls'' 1) example_lm example_input_ids
        example_position_ids (example_index 1)
     = (Inr (Tensor [1, 1] [tanh 1 + tanh 2 + 5], [7, 8]),
        [(example_input_ids, example_position_ids, example_index 1)])
   \<and> (\<exists>outputs. example_lm example_input_ids example_position_ids (example_index 1)
         = Inr (outputs, [7, 8]))"
proof -
  have c: "ClozeModel_forward \<lparr>take_softmax = False, length_penalty = 0\<rparr> example_lm
       example_input_ids example_position_ids (example_index 1) example_target_ids
       (example_logit_mask 1 1)
     = (Inr (Tensor [1] [Fin 5], [7, 8]),
        [(example_input_ids, example_position_ids, example_index 1)])"
    by (simp add: ClozeModel_forward_def cloze_flatten_def cloze_logits_def
        cloze_normalize_def unflatten_def gather_targets_def tmul_def sum_dim1_def
        finite_tensor_def ebind_def index_ok_def norm_index_def upt_rec example_lm_def
        example_input_ids_def example_target_ids_def example_logit_mask_def)
  have v: "VerbalizerModel_forward example_lm example_input_ids example_position_ids
        (example_index 1) example_target_ids (example_logit_mask 1 1)
     = (Inr (Tensor [1, 2] [4, 3], [7, 8]),
        [(example_input_ids, example_position_ids, example_index 1)])"
    by (simp add: VerbalizerModel_forward_def index_rows_def gather_candidates_def ebind_def
        index_ok_def norm_index_def upt_rec example_lm_def example_input_ids_def
        example_index_def example_target_ids_def)
  have p: "PoolingModel_forward (example_pooling ''cls'' 1) example_lm example_input_ids
        example_position_ids (example_index 1)
     = (Inr (Tensor [1, 1] [tanh 1 + tanh 2 + 5], [7, 8]),
        [(example_input_ids, example_position_ids, example_index 1)])"
    by (simp add: PoolingModel_forward_def pooling_flatten_def pool_select_def
        index_first_def pooling_head_def linear_apply_def tensor_tanh_def unflatten_def
        ebind_def upt_rec example_lm_def example_input_ids_def example_pooling_def)
  from aux_state_passthrough [of "\<lparr>take_softmax = False, length_penalty = 0\<rparr>" example_lm
      example_input_ids example_position_ids "example_index 1" example_target_ids
      "example_logit_mask 1 1" "Tensor [1] [Fin 5]" "[7, 8]"
      "[(example_input_ids, example_position_ids, example_index 1)]"
      example_lm example_input_ids example_position_ids "example_index 1"
      example_target_ids "example_logit_mask 1 1" "Tensor [1, 2] [4, 3]" "[7, 8]"
      "[(example_input_ids, example_position_ids, example_index 1)]"
      "example_pooling ''cls'' 1" example_lm example_input_ids example_position_ids
      "example_index 1" "Tensor [1, 1] [tanh 1 + tanh 2 + 5]" "[7, 8]"
      "[(example_input_ids, example_position_ids, example_index 1)]"]
  show ?thesis using c v p by simp
qed

text \<open>
  C6, as the claim states it, fails: a \<^verbatim>\<open>PoolingModel\<close> whose \<open>pool_token\<close> is
  \<open>middle\<close> fails with the not-implemented error, but only after the language model has
  been invoked on the batch. The list of calls is not empty.
\<close>

theorem unknown_pool_token_counterexample:
  "PoolingModel_forward (example_pooling ''middle'' 1) example_lm example_input_ids
     example_position_ids (example_index 1)
   = (Inl NotImplementedError, [(example_input_ids, example_position_ids, example_index 1)])
   \<and> PoolingModel_forward (example_pooling ''middle'' 1) example_lm example_input_ids
        example_position_ids (example_index 1)
     \<noteq> (Inl NotImplementedError, [])"
  by (simp add: PoolingModel_forward_def pooling_flatten_def pool_select_def ebind_def
      example_lm_def example_input_ids_def example_pooling_def)

text \<open>
  C6, amended. With a \<open>pool_token\<close> other than \<open>start\<close>, \<open>pad\<close> and \<open>cls\<close> a forward
  call never returns a result. The not-implemented error is raised after lines 83 to 89:
  when the flattening of lines 83 to 88 succeeds and the language model returns, the call
  ends in the not-implemented error with the language model invoked exactly once, on the
  flattened batch. An error of the flattening (the assertion on \<open>num_class\<close>, a reshape)
  or of the language model is the error of the call instead.
\<close>

theorem unknown_pool_token_after_model:
  assumes "pool_token self \<noteq> ''start''" "pool_token self \<noteq> ''pad''"
    "pool_token self \<noteq> ''cls''"
  shows "(\<forall>res. fst (PoolingModel_forward self model input_ids position_ids attention_mask)
            \<noteq> Inr res)
    \<and> (\<forall>nc inp pos att outputs mems.
          pooling_flatten self input_ids position_ids attention_mask = Inr (nc, inp, pos, att)
          \<and> model inp pos att = Inr (outputs, mems) \<longrightarrow>
          PoolingModel_forward self model input_ids position_ids attention_mask
            = (Inl NotImplementedError, [(inp, pos, att)]))
    \<and> (\<forall>nc inp pos att e.
          pooling_flatten self input_ids position_ids attention_mask = Inr (nc, inp, pos, att)
          \<and> model inp pos att = Inl e \<longrightarrow>
          PoolingModel_forward self model input_ids position_ids attention_mask
            = (Inl e, [(inp, pos, att)]))
    \<and> (\<forall>e. pooling_flatten self input_ids position_ids attention_mask = Inl e \<longrightarrow>
          PoolingModel_forward self model input_ids position_ids attention_mask = (Inl e, []))
    \<and> (length (shape input_ids) \<noteq> 3 \<longrightarrow>
          pooling_flatten self input_ids position_ids attention_mask
            = Inr (None, input_ids, position_ids, attention_mask))"
  using assms
  by (auto simp: PoolingModel_forward_def pooling_flatten_def pool_select_def ebind_def
           split: sum.splits prod.splits)

theorem unknown_pool_token_after_model_witness:
  "pool_token (example_pooling ''middle'' 1) \<noteq> ''start''
   \<and> pool_token (example_pooling ''middle'' 1) \<noteq> ''pad''
   \<and> pool_token (example_pooling ''middle'' 1) \<noteq> ''cls''
   \<and> pooling_flatten (example_pooling ''middle'' 1) example_input_ids example_position_ids
        (example_index 1)
      = Inr (None, example_input_ids, example_position_ids, example_index 1)
   \<and> example_lm example_input_ids example_position_ids (example_index 1)
      = Inr (Tensor [1, 2, 2] [1, 2, 3, 4], [7, 8])
   \<and> PoolingModel_forward (example_pooling ''middle'' 1) example_lm example_input_ids
        example_position_ids (example_index 1)
      = (Inl NotImplementedError, [(example_input_ids, example_position_ids, example_index 1)])"
proof -
  have t: "pool_token (example_pooling ''middle'' 1) \<noteq> ''start''"
    "pool_token (example_pooling ''middle'' 1) \<noteq> ''pad''"
    "pool_token (example_pooling ''middle'' 1) \<noteq> ''cls''"
    by (simp_all add: example_pooling_def)
  have f: "pooling_flatten (example_pooling ''middle'' 1) example_input_ids
      example_position_ids (example_index 1)
      = Inr (None, example_input_ids, example_position_ids, example_index 1)"
    by (simp add: pooling_flatten_def example_input_ids_def)
  have m: "example_lm example_input_ids example_position_ids (example_index 1)
      = Inr (Tensor [1, 2, 2] [1, 2, 3, 4], [7, 8])"
    by (simp add: example_lm_def)
  from unknown_pool_token_after_model [OF t, of example_lm example_input_ids
      example_position_ids "example_index 1"] f m
  have "PoolingModel_forward (example_pooling ''middle'' 1) example_lm example_input_ids
        example_position_ids (example_index 1)
      = (Inl NotImplementedError, [(example_input_ids, example_position_ids, example_index 1)])"
    by blast
  with t f m show ?thesis by simp
qed

section \<open>VerbalizerModel: what is gathered\<close>

text \<open>
  C4. When \<^verbatim>\<open>VerbalizerModel.forward\<close> returns, \<open>input_ids\<close> has rank 2, the output of
  the language model has rank 3, and the primary result has one row per row of that
  output (the rows of \<open>input_ids\<close>, for a language model that answers row by row) and
  one column per candidate. Its entry \<open>[r, j]\<close> is the output at row \<open>r\<close>, at the
  sequence position \<open>attention_mask[r]\<close> and at the vocabulary index
  \<open>target_ids[r, j]\<close>, both read as indices of the tensor engine (a negative one counts
  from the end). \<open>attention_mask\<close> is thus a position per row, and \<open>logit_mask\<close> has no
  effect on the call.
\<close>

theorem verbalizer_scores:
  assumes fw: "VerbalizerModel_forward model input_ids position_ids attention_mask target_ids
                 logit_mask = (Inr (res, mems), tr)"
    and lm: "model input_ids position_ids attention_mask = Inr (outputs, mems')"
    and wf: "wf_tensor outputs"
  shows "length (shape input_ids) = 2
     \<and> length (shape outputs) = 3
     \<and> shape res = [shape outputs ! 0, shape target_ids ! 1]
     \<and> (shape outputs ! 0 = shape input_ids ! 0 \<longrightarrow>
          shape res = [shape input_ids ! 0, shape target_ids ! 1])
     \<and> (\<forall>r<shape outputs ! 0. \<forall>j<shape target_ids ! 1.
          index_ok (shape outputs ! 1) (data attention_mask ! r)
          \<and> index_ok (shape outputs ! 2) (at2 target_ids r j)
          \<and> at2 res r j
              = at3 outputs r (norm_index (shape outputs ! 1) (data attention_mask ! r))
                  (norm_index (shape outputs ! 2) (at2 target_ids r j)))
     \<and> (\<forall>logit_mask'. VerbalizerModel_forward model input_ids position_ids attention_mask
            target_ids logit_mask'
          = VerbalizerModel_forward model input_ids position_ids attention_mask
              target_ids logit_mask)"
proof -
  from fw lm obtain sel where rk: "length (shape input_ids) = 2"
    and ir: "index_rows outputs attention_mask = Inr sel"
    and gc: "gather_candidates sel target_ids = Inr res"
    unfolding VerbalizerModel_forward_Inr by auto
  let ?N = "shape outputs ! 0" and ?L = "shape outputs ! 1" and ?V = "shape outputs ! 2"
    and ?K = "shape target_ids ! 1"
  from index_rows_Inr [OF ir wf] have rk2: "2 \<le> length (shape outputs)"
    and sho: "shape sel = ?N # drop 2 (shape outputs)"
    and wfs: "wf_tensor sel"
    and rows: "\<And>r. r < ?N \<Longrightarrow> index_ok ?L (data attention_mask ! r)
        \<and> row_at sel r = vec_at outputs r (norm_index ?L (data attention_mask ! r))"
    by blast+
  from gc have rko: "length (shape sel) = 2"
    by (auto simp: gather_candidates_def Let_def split: if_splits)
  with sho have rk3: "length (shape outputs) = 3" using rk2 by simp
  have so3: "shape outputs = [?N, ?L, ?V]" using rank3_shape [OF rk3] .
  have "drop 2 (shape outputs) = [?V]" by (subst so3) simp
  with sho have sho2: "shape sel = [?N, ?V]" by simp
  from gc sho2 have ok: "list_all (\<lambda>i. index_ok ?V (data target_ids ! i)) [0..<?N * ?K]"
    and res: "res = Tensor [?N, ?K]
       (map (\<lambda>i. data sel ! ((i div ?K) * ?V + norm_index ?V (data target_ids ! i)))
          [0..<?N * ?K])"
    by (auto simp: gather_candidates_def Let_def split: if_splits)
  have entry: "index_ok ?L (data attention_mask ! r) \<and> index_ok ?V (at2 target_ids r j)
      \<and> at2 res r j = at3 outputs r (norm_index ?L (data attention_mask ! r))
                        (norm_index ?V (at2 target_ids r j))"
    if r: "r < ?N" and j: "j < ?K" for r j
  proof -
    let ?i = "r * ?K + j"
    have i: "?i < ?N * ?K" using flat_index_less [OF r j] .
    have okt: "index_ok ?V (data target_ids ! ?i)" using ok i by (simp add: list_all_iff)
    have v: "norm_index ?V (data target_ids ! ?i) < ?V" using norm_index_less [OF okt] .
    have "at2 res r j = data sel ! (r * ?V + norm_index ?V (data target_ids ! ?i))"
      using i j by (simp add: res at2_def)
    also have "\<dots> = row_at sel r ! norm_index ?V (data target_ids ! ?i)"
      using row_at_nth [OF wfs sho2 r v] by simp
    also have "\<dots> = at3 outputs r (norm_index ?L (data attention_mask ! r))
                       (norm_index ?V (data target_ids ! ?i))"
      using rows [OF r] vec_at_nth [OF wf so3 r norm_index_less v] by simp
    finally show ?thesis using rows [OF r] okt by (simp add: at2_def)
  qed
  have "\<forall>logit_mask'. VerbalizerModel_forward model input_ids position_ids attention_mask
            target_ids logit_mask'
          = VerbalizerModel_forward model input_ids position_ids attention_mask
              target_ids logit_mask"
    by (simp add: VerbalizerModel_forward_def)
  with rk rk3 res entry show ?thesis by auto
qed

theorem verbalizer_scores_witness:
  "VerbalizerModel_forward example_lm example_input_ids example_position_ids
       (example_index 1) example_target_ids (example_logit_mask 1 1)
     = (Inr (Tensor [1, 2] [4, 3], [7, 8]),
        [(example_input_ids, example_position_ids, example_index 1)])
   \<and> example_lm example_input_ids example_position_ids (example_index 1)
      = Inr (Tensor [1, 2, 2] [1, 2, 3, 4], [7, 8])
   \<and> wf_tensor (Tensor [1, 2, 2] [1, 2, 3, 4 :: real])
   \<and> shape (Tensor [1, 2] [4, 3 :: real]) = [shape example_input_ids ! 0, 2]
   \<and> at2 (Tensor [1, 2] [4, 3 :: real]) 0 0 = at3 (Tensor [1, 2, 2] [1, 2, 3, 4]) 0 1 1
   \<and> at2 (Tensor [1, 2] [4, 3 :: real]) 0 1 = at3 (Tensor [1, 2, 2] [1, 2, 3, 4]) 0 1 0
   \<and> VerbalizerModel_forward example_lm example_input_ids example_position_ids
        (example_index 1) example_target_ids (example_logit_mask 0 0)
     = VerbalizerModel_forward example_lm example_input_ids example_position_ids
        (example_index 1) example_target_ids (example_logit_mask 1 1)"
proof -
  have fw: "VerbalizerModel_forward example_lm example_input_ids example_position_ids
       (example_index 1) example_target_ids (example_logit_mask 1 1)
     = (Inr (Tensor [1, 2] [4, 3], [7, 8]),
        [(example_input_ids, example_position_ids, example_index 1)])"
    by (simp add: VerbalizerModel_forward_def index_rows_def gather_candidates_def ebind_def
        index_ok_def norm_index_def upt_rec example_lm_def example_input_ids_def
        example_index_def example_target_ids_def)
  have lm: "example_lm example_input_ids example_position_ids (example_index 1)
      = Inr (Tensor [1, 2, 2] [1, 2, 3, 4], [7, 8])"
    by (simp add: example_lm_def)
  have wf: "wf_tensor (Tensor [1, 2, 2] [1, 2, 3, 4 :: real])"
    by (simp add: wf_tensor_def)
  note th = verbalizer_scores [OF fw lm wf]
  from th have e: "\<And>r j. r < 1 \<Longrightarrow> j < 2 \<Longrightarrow>
      at2 (Tensor [1, 2] [4, 3 :: real]) r j
        = at3 (Tensor [1, 2, 2] [1, 2, 3, 4]) r
            (norm_index 2 (data (example_index 1) ! r))
            (norm_index 2 (at2 example_target_ids r j))"
    by (simp add: example_target_ids_def)
  have e0: "at2 (Tensor [1, 2] [4, 3 :: real]) 0 0 = at3 (Tensor [1, 2, 2] [1, 2, 3, 4]) 0 1 1"
    using e [of 0 0] by (simp add: norm_index_def example_index_def example_target_ids_def at2_def)
  have e1: "at2 (Tensor [1, 2] [4, 3 :: real]) 0 1 = at3 (Tensor [1, 2, 2] [1, 2, 3, 4]) 0 1 0"
    using e [of 0 1] by (simp add: norm_index_def example_index_def example_target_ids_def at2_def)
  from th have s: "shape (Tensor [1, 2] [4, 3 :: real]) = [shape example_input_ids ! 0, 2]"
    by (simp add: example_input_ids_def)
  from th have m: "VerbalizerModel_forward example_lm example_input_ids example_position_ids
        (example_index 1) example_target_ids (example_logit_mask 0 0)
     = VerbalizerModel_forward example_lm example_input_ids example_position_ids
        (example_index 1) example_target_ids (example_logit_mask 1 1)"
    by blast
  from fw lm wf s e0 e1 m show ?thesis by simp
qed

section \<open>PoolingModel: the pooled vector\<close>

lemma pooling_flatten_Inr:
  assumes "pooling_flatten self input_ids position_ids attention_mask = Inr (nc, inp, pos, att)"
  shows "data att = data attention_mask" and "wf_tensor attention_mask \<Longrightarrow> wf_tensor att"
  using assms
  by (auto simp: pooling_flatten_def flatten_lead_def ebind_eq_Inr split: if_splits
           dest: reshape_infer_Inr(1) reshape_infer_Inr(5))

lemma minus_one_nth:
  "r < length (data t) \<Longrightarrow> data (minus_one t) ! r = data t ! r - 1"
  by (simp add: minus_one_def)

lemma pool_select_Inr:
  assumes ps: "pool_select token outputs att = Inr P"
    and wf: "wf_tensor outputs" and wfa: "wf_tensor att"
  shows "token = ''start'' \<or> token = ''pad'' \<or> token = ''cls''"
    and "shape P = shape outputs ! 0 # drop 2 (shape outputs)"
    and "\<And>r. r < shape outputs ! 0 \<Longrightarrow> token = ''start'' \<Longrightarrow>
           index_ok (shape outputs ! 1) (data att ! r)
           \<and> row_at P r = vec_at outputs r (norm_index (shape outputs ! 1) (data att ! r))"
    and "\<And>r. r < shape outputs ! 0 \<Longrightarrow> token = ''pad'' \<Longrightarrow>
           index_ok (shape outputs ! 1) (data att ! r - 1)
           \<and> row_at P r = vec_at outputs r (norm_index (shape outputs ! 1) (data att ! r - 1))"
    and "\<And>r. r < shape outputs ! 0 \<Longrightarrow> token = ''cls'' \<Longrightarrow>
           row_at P r = vec_at outputs r 0"
proof -
  let ?N = "shape outputs ! 0" and ?L = "shape outputs ! 1"
  show tok: "token = ''start'' \<or> token = ''pad'' \<or> token = ''cls''"
    using ps by (auto simp: pool_select_def split: if_splits)
  show "shape P = ?N # drop 2 (shape outputs)"
    using tok ps index_rows_Inr [OF _ wf] index_first_Inr [OF _ wf]
    by (auto simp: pool_select_def split: if_splits)
  show "index_ok ?L (data att ! r)
      \<and> row_at P r = vec_at outputs r (norm_index ?L (data att ! r))"
    if "r < ?N" "token = ''start''" for r
  proof -
    from ps that(2) have "index_rows outputs att = Inr P" by (simp add: pool_select_def)
    from index_rows_Inr [OF this wf] that(1) show ?thesis by simp
  qed
  show "index_ok ?L (data att ! r - 1)
      \<and> row_at P r = vec_at outputs r (norm_index ?L (data att ! r - 1))"
    if "r < ?N" "token = ''pad''" for r
  proof -
    from ps that(2) have ir: "index_rows outputs (minus_one att) = Inr P"
      by (simp add: pool_select_def)
    note R = index_rows_Inr [OF ir wf]
    from R have "shape att = [?N]" by (simp add: minus_one_def)
    with wfa have "length (data att) = ?N" by (simp add: wf_tensor_def)
    then have eq: "data (minus_one att) ! r = data att ! r - 1"
      using minus_one_nth [of r att] that(1) by simp
    from R that(1) have "index_ok ?L (data (minus_one att) ! r)
      \<and> row_at P r = vec_at outputs r (norm_index ?L (data (minus_one att) ! r))"
      by blast
    then show ?thesis unfolding eq .
  qed
  show "row_at P r = vec_at outputs r 0" if "r < ?N" "token = ''cls''" for r
  proof -
    from ps that(2) have "index_first outputs = Inr P" by (simp add: pool_select_def)
    from index_first_Inr [OF this wf] that(1) show ?thesis by simp
  qed
qed

text \<open>
  C5. When \<^verbatim>\<open>PoolingModel.forward\<close> returns, \<open>pool_token\<close> is one of \<open>start\<close>,
  \<open>pad\<close> and \<open>cls\<close>, and there is a pooled tensor \<open>P\<close> with one row per row
  of the output of the language model: with \<open>start\<close> the row \<open>r\<close> is the hidden vector
  at the sequence position \<open>attention_mask[r]\<close>, with \<open>pad\<close> the one at position
  \<open>attention_mask[r] - 1\<close>, with \<open>cls\<close> the one at position 0 (positions read as
  indices of the tensor engine; for a batch of rank 3 the rows and the attention mask are
  the flattened ones, which hold the same entries). The logits returned are the final
  linear head applied to the dropout of the hyperbolic tangent of the linear projection of
  \<open>P\<close>, reshaped for a batch of rank 3.
\<close>

theorem pooled_vector_by_pool_token:
  assumes fw: "PoolingModel_forward self model input_ids position_ids attention_mask
                 = (Inr (logits, mems), [(inp, pos, att)])"
    and lm: "model inp pos att = Inr (outputs, mems')"
    and wf: "wf_tensor outputs"
    and wfa: "wf_tensor attention_mask"
  shows "\<exists>P h out.
      (pool_token self = ''start'' \<or> pool_token self = ''pad'' \<or> pool_token self = ''cls'')
    \<and> pool_select (pool_token self) outputs att = Inr P
    \<and> data att = data attention_mask
    \<and> shape P = shape outputs ! 0 # drop 2 (shape outputs)
    \<and> (\<forall>r<shape outputs ! 0.
          (pool_token self = ''start'' \<longrightarrow>
             index_ok (shape outputs ! 1) (data attention_mask ! r)
             \<and> row_at P r
                 = vec_at outputs r (norm_index (shape outputs ! 1) (data attention_mask ! r)))
        \<and> (pool_token self = ''pad'' \<longrightarrow>
             index_ok (shape outputs ! 1) (data attention_mask ! r - 1)
             \<and> row_at P r
                 = vec_at outputs r
                     (norm_index (shape outputs ! 1) (data attention_mask ! r - 1)))
        \<and> (pool_token self = ''cls'' \<longrightarrow> row_at P r = vec_at outputs r 0))
    \<and> linear_apply (pool_layer self) P = Inr h
    \<and> linear_apply (multichoice_head self) (multichoice_dropout self (tensor_tanh h)) = Inr out
    \<and> data logits = data out
    \<and> (length (shape input_ids) \<noteq> 3 \<longrightarrow> logits = out \<and> att = attention_mask)"
proof -
  from fw lm obtain nc P out where
    fl: "pooling_flatten self input_ids position_ids attention_mask = Inr (nc, inp, pos, att)"
    and ps: "pool_select (pool_token self) outputs att = Inr P"
    and hd: "pooling_head self P = Inr out"
    and un: "unflatten nc out = Inr logits"
    unfolding PoolingModel_forward_Inr by auto
  note fa = pooling_flatten_Inr [OF fl]
  note S = pool_select_Inr [OF ps wf fa(2) [OF wfa]]
  from hd obtain h where h: "linear_apply (pool_layer self) P = Inr h"
    and o: "linear_apply (multichoice_head self) (multichoice_dropout self (tensor_tanh h))
              = Inr out"
    unfolding pooling_head_def ebind_eq_Inr by blast
  have two: "length (shape input_ids) \<noteq> 3 \<longrightarrow> logits = out \<and> att = attention_mask"
    using fl un by (auto simp: pooling_flatten_def unflatten_def split: if_splits)
  show ?thesis
    using S(1) ps fa(1) S(2) S(3) S(4) S(5) h o unflatten_data [OF un] two
    by (intro exI [of _ P] exI [of _ h] exI [of _ out]) simp
qed

theorem pooled_vector_by_pool_token_witness:
  "PoolingModel_forward (example_pooling ''start'' 1) example_lm example_input_ids
       example_position_ids (example_index 1)
     = (Inr (Tensor [1, 1] [tanh 3 + tanh 4 + 5], [7, 8]),
        [(example_input_ids, example_position_ids, example_index 1)])
   \<and> example_lm example_input_ids example_position_ids (example_index 1)
      = Inr (Tensor [1, 2, 2] [1, 2, 3, 4], [7, 8])
   \<and> wf_tensor (Tensor [1, 2, 2] [1, 2, 3, 4 :: real])
   \<and> wf_tensor (example_index 1)
   \<and> (\<exists>P h out. pool_select ''start'' (Tensor [1, 2, 2] [1, 2, 3, 4 :: real]) (example_index 1)
          = Inr P
        \<and> row_at P 0 = vec_at (Tensor [1, 2, 2] [1, 2, 3, 4 :: real]) 0 1
        \<and> vec_at (Tensor [1, 2, 2] [1, 2, 3, 4 :: real]) 0 1 = [3, 4]
        \<and> linear_apply (pool_layer (example_pooling ''start'' 1)) P = Inr h
        \<and> linear_apply (multichoice_head (example_pooling ''start'' 1))
             (multichoice_dropout (example_pooling ''start'' 1) (tensor_tanh h)) = Inr out
        \<and> Tensor [1, 1] [tanh 3 + tanh 4 + 5] = out)"
proof -
  have fw: "PoolingModel_forward (example_pooling ''start'' 1) example_lm example_input_ids
       example_position_ids (example_index 1)
     = (Inr (Tensor [1, 1] [tanh 3 + tanh 4 + 5], [7, 8]),
        [(example_input_ids, example_position_ids, example_index 1)])"
    by (simp add: PoolingModel_forward_def pooling_flatten_def pool_select_def
        index_rows_def index_ok_def norm_index_def pooling_head_def linear_apply_def
        tensor_tanh_def unflatten_def ebind_def upt_rec example_lm_def example_input_ids_def
        example_index_def example_pooling_def)
  have lm: "example_lm example_input_ids example_position_ids (example_index 1)
      = Inr (Tensor [1, 2, 2] [1, 2, 3, 4], [7, 8])"
    by (simp add: example_lm_def)
  have wf: "wf_tensor (Tensor [1, 2, 2] [1, 2, 3, 4 :: real])"
    by (simp add: wf_tensor_def)
  have wfa: "wf_tensor (example_index 1)"
    by (simp add: wf_tensor_def example_index_def)
  have tok: "pool_token (example_pooling ''start'' 1) = ''start''"
    by (simp add: example_pooling_def)
  have rk: "length (shape example_input_ids) \<noteq> 3"
    by (simp add: example_input_ids_def)
  have v: "vec_at (Tensor [1, 2, 2] [1, 2, 3, 4 :: real]) 0 1 = [3, 4]"
    by (simp add: vec_at_def)
  from pooled_vector_by_pool_token [OF fw lm wf wfa] obtain P h out where
    "pool_select ''start'' (Tensor [1, 2, 2] [1, 2, 3, 4 :: real]) (example_index 1) = Inr P"
    "row_at P 0 = vec_at (Tensor [1, 2, 2] [1, 2, 3, 4 :: real]) 0
        (norm_index 2 (data (example_index 1) ! 0))"
    "linear_apply (pool_layer (example_pooling ''start'' 1)) P = Inr h"
    "linear_apply (multichoice_head (example_pooling ''start'' 1))
        (multichoice_dropout (example_pooling ''start'' 1) (tensor_tanh h)) = Inr out"
    "Tensor [1, 1] [tanh 3 + tanh 4 + 5] = out"
    using tok rk by auto
  then have "\<exists>P h out.
      pool_select ''start'' (Tensor [1, 2, 2] [1, 2, 3, 4 :: real]) (example_index 1) = Inr P
        \<and> row_at P 0 = vec_at (Tensor [1, 2, 2] [1, 2, 3, 4 :: real]) 0 1
        \<and> vec_at (Tensor [1, 2, 2] [1, 2, 3, 4 :: real]) 0 1 = [3, 4]
        \<and> linear_apply (pool_layer (example_pooling ''start'' 1)) P = Inr h
        \<and> linear_apply (multichoice_head (example_pooling ''start'' 1))
             (multichoice_dropout (example_pooling ''start'' 1) (tensor_tanh h)) = Inr out
        \<and> Tensor [1, 1] [tanh 3 + tanh 4 + 5] = out"
    using v by (auto simp: norm_index_def example_index_def)
  with fw lm wf wfa show ?thesis by blast
qed

text \<open>
  C10. With \<open>pool_token = pad\<close>, a row \<open>r\<close> whose \<open>attention_mask[r]\<close> is 0 is pooled
  at index \<open>-1\<close>. The tensor engine accepts that index whenever the sequence dimension is
  not empty and reads it from the end: on every call that returns, the pooled vector of
  such a row is the hidden vector at the last sequence position, and the logits are
  computed from it.
\<close>

theorem pad_index_zero_wraps_to_last:
  assumes fw: "PoolingModel_forward self model input_ids position_ids attention_mask
                 = (Inr (logits, mems), [(inp, pos, att)])"
    and lm: "model inp pos att = Inr (outputs, mems')"
    and wf: "wf_tensor outputs"
    and wfa: "wf_tensor attention_mask"
    and tok: "pool_token self = ''pad''"
    and r: "r < shape outputs ! 0"
    and zero: "data attention_mask ! r = 0"
  shows "0 < shape outputs ! 1
    \<and> index_ok (shape outputs ! 1) (data attention_mask ! r - 1)
    \<and> norm_index (shape outputs ! 1) (data attention_mask ! r - 1) = shape outputs ! 1 - 1
    \<and> (\<exists>P out. pool_select ''pad'' outputs att = Inr P
          \<and> row_at P r = vec_at outputs r (shape outputs ! 1 - 1)
          \<and> pooling_head self P = Inr out
          \<and> data logits = data out)"
proof -
  from fw lm obtain nc P out where
    fl: "pooling_flatten self input_ids position_ids attention_mask = Inr (nc, inp, pos, att)"
    and ps: "pool_select (pool_token self) outputs att = Inr P"
    and hd: "pooling_head self P = Inr out"
    and un: "unflatten nc out = Inr logits"
    unfolding PoolingModel_forward_Inr by auto
  note fa = pooling_flatten_Inr [OF fl]
  from pool_select_Inr(4) [OF ps wf fa(2) [OF wfa] r tok] fa(1) zero
  have ok: "index_ok (shape outputs ! 1) (- 1)"
    and row: "row_at P r = vec_at outputs r (norm_index (shape outputs ! 1) (- 1))"
    by simp_all
  from ok have pos: "0 < shape outputs ! 1" by (simp add: index_ok_def)
  then have n: "norm_index (shape outputs ! 1) (- 1) = shape outputs ! 1 - 1"
    by (simp add: norm_index_def nat_diff_distrib' algebra_simps)
  show ?thesis
    using pos ok n row ps hd unflatten_data [OF un] tok zero by auto
qed

theorem pad_index_zero_wraps_to_last_witness:
  "PoolingModel_forward (example_pooling ''pad'' 1) example_lm example_input_ids
       example_position_ids (example_index 0)
     = (Inr (Tensor [1, 1] [tanh 3 + tanh 4 + 5], [7, 8]),
        [(example_input_ids, example_position_ids, example_index 0)])
   \<and> example_lm example_input_ids example_position_ids (example_index 0)
      = Inr (Tensor [1, 2, 2] [1, 2, 3, 4], [7, 8])
   \<and> wf_tensor (Tensor [1, 2, 2] [1, 2, 3, 4 :: real])
   \<and> wf_tensor (example_index 0)
   \<and> pool_token (example_pooling ''pad'' 1) = ''pad''
   \<and> (0::nat) < shape (Tensor [1, 2, 2] [1, 2, 3, 4 :: real]) ! 0
   \<and> data (example_index 0) ! 0 = 0
   \<and> (\<exists>P out. pool_select ''pad'' (Tensor [1, 2, 2] [1, 2, 3, 4 :: real]) (example_index 0)
          = Inr P
        \<and> row_at P 0 = vec_at (Tensor [1, 2, 2] [1, 2, 3, 4 :: real]) 0 1
        \<and> vec_at (Tensor [1, 2, 2] [1, 2, 3, 4 :: real]) 0 1 = [3, 4]
        \<and> pooling_head (example_pooling ''pad'' 1) P = Inr out
        \<and> [tanh 3 + tanh 4 + 5] = data out)"
proof -
  have fw: "PoolingModel_forward (example_pooling ''pad'' 1) example_lm example_input_ids
       example_position_ids (example_index 0)
     = (Inr (Tensor [1, 1] [tanh 3 + tanh 4 + 5], [7, 8]),
        [(example_input_ids, example_position_ids, example_index 0)])"
    by (simp add: PoolingModel_forward_def pooling_flatten_def pool_select_def
        index_rows_def minus_one_def index_ok_def norm_index_def pooling_head_def
        linear_apply_def tensor_tanh_def unflatten_def ebind_def upt_rec example_lm_def
        example_input_ids_def example_index_def example_pooling_def)
  have lm: "example_lm example_input_ids example_position_ids (example_index 0)
      = Inr (Tensor [1, 2, 2] [1, 2, 3, 4], [7, 8])"
    by (simp add: example_lm_def)
  have wf: "wf_tensor (Tensor [1, 2, 2] [1, 2, 3, 4 :: real])"
    by (simp add: wf_tensor_def)
  have wfa: "wf_tensor (example_index 0)"
    by (simp add: wf_tensor_def example_index_def)
  have tok: "pool_token (example_pooling ''pad'' 1) = ''pad''"
    by (simp add: example_pooling_def)
  have r: "(0::nat) < shape (Tensor [1, 2, 2] [1, 2, 3, 4 :: real]) ! 0" by simp
  have z: "data (example_index 0) ! 0 = 0" by (simp add: example_index_def)
  have v: "vec_at (Tensor [1, 2, 2] [1, 2, 3, 4 :: real]) 0 1 = [3, 4]"
    by (simp add: vec_at_def)
  from pad_index_zero_wraps_to_last [OF fw lm wf wfa tok r z] v
  have "\<exists>P out. pool_select ''pad'' (Tensor [1, 2, 2] [1, 2, 3, 4 :: real]) (example_index 0)
          = Inr P
        \<and> row_at P 0 = vec_at (Tensor [1, 2, 2] [1, 2, 3, 4 :: real]) 0 1
        \<and> vec_at (Tensor [1, 2, 2] [1, 2, 3, 4 :: real]) 0 1 = [3, 4]
        \<and> pooling_head (example_pooling ''pad'' 1) P = Inr out
        \<and> [tanh 3 + tanh 4 + 5] = data out"
    by auto
  with fw lm wf wfa tok r z show ?thesis by blast
qed

section \<open>ClozeModel: the score of a row\<close>

lemma gather_targets_Inr:
  assumes "gather_targets G tgt = Inr g"
  shows "shape tgt = [shape tgt ! 0, shape tgt ! 1]"
    and "shape G = [shape G ! 0, shape G ! 1, shape G ! 2]"
    and "shape g = shape tgt"
    and "length (data g) = shape tgt ! 0 * shape tgt ! 1"
    and "\<And>r p. r < shape tgt ! 0 \<Longrightarrow> p < shape tgt ! 1 \<Longrightarrow>
           r < shape G ! 0 \<and> p < shape G ! 1 \<and> index_ok (shape G ! 2) (at2 tgt r p)
           \<and> data g ! (r * (shape tgt ! 1) + p)
               = at3 G r p (norm_index (shape G ! 2) (at2 tgt r p))"
    and "length (shape tgt) = 2"
    and "length (shape G) = 3"
proof -
  let ?N = "shape tgt ! 0" and ?Lt = "shape tgt ! 1"
  let ?ok = "\<lambda>i. i div ?Lt < shape G ! 0 \<and> i mod ?Lt < shape G ! 1
                  \<and> index_ok (shape G ! 2) (data tgt ! i)"
  from assms show rt: "length (shape tgt) = 2" and rg: "length (shape G) = 3"
    by (auto simp: gather_targets_def Let_def split: if_splits)
  from assms have ok: "list_all ?ok [0..<?N * ?Lt]"
    and g: "g = Tensor [?N, ?Lt]
         (map (\<lambda>i. data G ! (((i div ?Lt) * (shape G ! 1) + i mod ?Lt) * (shape G ! 2)
                                + norm_index (shape G ! 2) (data tgt ! i))) [0..<?N * ?Lt])"
    by (auto simp: gather_targets_def Let_def split: if_splits)
  show st: "shape tgt = [?N, ?Lt]" using rank2_shape [OF rt] .
  show "shape G = [shape G ! 0, shape G ! 1, shape G ! 2]" using rank3_shape [OF rg] .
  show "shape g = shape tgt" using g st by simp
  show "length (data g) = ?N * ?Lt" using g by simp
  fix r p assume r: "r < ?N" and p: "p < ?Lt"
  have i: "r * ?Lt + p < ?N * ?Lt" using flat_index_less [OF r p] .
  have "?ok (r * ?Lt + p)" using ok i by (simp add: list_all_iff)
  then show "r < shape G ! 0 \<and> p < shape G ! 1 \<and> index_ok (shape G ! 2) (at2 tgt r p)
           \<and> data g ! (r * ?Lt + p) = at3 G r p (norm_index (shape G ! 2) (at2 tgt r p))"
    using i p by (simp add: g at2_def at3_def)
qed

lemma cloze_logits_Inr:
  assumes cl: "cloze_logits self outputs tgt msk = Inr raw" and wfm: "wf_tensor msk"
  shows "length (shape tgt) = 2"
    and "length (shape outputs) = 3"
    and "shape msk = shape tgt"
    and "shape raw = [shape tgt ! 0]"
    and "length (data raw) = shape tgt ! 0"
    and "\<And>r p. r < shape tgt ! 0 \<Longrightarrow> p < shape tgt ! 1 \<Longrightarrow>
           r < shape outputs ! 0 \<and> p < shape outputs ! 1
           \<and> index_ok (shape outputs ! 2) (at2 tgt r p)"
    and "\<And>r. r < shape tgt ! 0 \<Longrightarrow>
           data raw ! r = (\<Sum>p\<leftarrow>[0..<shape tgt ! 1].
              at3 (if take_softmax self then log_softmax outputs else outputs) r p
                  (norm_index (shape outputs ! 2) (at2 tgt r p)) * at2 msk r p)"
proof -
  let ?G = "if take_softmax self then log_softmax outputs else outputs"
  let ?N = "shape tgt ! 0" and ?Lt = "shape tgt ! 1"
  have shG: "shape ?G = shape outputs" by (simp add: log_softmax_def Let_def)
  from cl obtain g pr where g: "gather_targets ?G tgt = Inr g"
    and pr: "tmul g msk = Inr pr" and raw: "sum_dim1 pr = Inr raw"
    unfolding cloze_logits_def ebind_eq_Inr by blast
  note G = gather_targets_Inr [OF g]
  show rt: "length (shape tgt) = 2" using G(6) .
  show "length (shape outputs) = 3" using G(7) shG by simp
  from pr have sm: "shape g = shape msk"
    and prd: "pr = Tensor (shape g) (map2 (*) (data g) (data msk))"
    by (auto simp: tmul_def split: if_splits)
  show sm': "shape msk = shape tgt" using sm G(3) by simp
  have lm: "length (data msk) = ?N * ?Lt"
    using wfm sm' prod_rank2 [OF rt] by (simp add: wf_tensor_def)
  have prd': "data pr = map (\<lambda>i. data g ! i * data msk ! i) [0..<?N * ?Lt]"
    using map2_upt [OF G(4) lm] prd by simp
  have "shape pr = shape tgt" using prd G(3) by simp
  then have spr: "length (shape pr) = 2" "shape pr ! 0 = ?N" "shape pr ! 1 = ?Lt"
    using rt by simp_all
  from raw spr have raw': "raw = Tensor [?N]
      (map (\<lambda>r. \<Sum>p\<leftarrow>[0..<?Lt]. data pr ! (r * ?Lt + p)) [0..<?N])"
    by (simp add: sum_dim1_def Let_def)
  show "shape raw = [?N]" and "length (data raw) = ?N" using raw' by simp_all
  show "\<And>r p. r < ?N \<Longrightarrow> p < ?Lt \<Longrightarrow>
           r < shape outputs ! 0 \<and> p < shape outputs ! 1
           \<and> index_ok (shape outputs ! 2) (at2 tgt r p)"
    using G(5) shG by simp
  fix r assume r: "r < ?N"
  have eq: "data pr ! (r * ?Lt + p)
      = at3 ?G r p (norm_index (shape outputs ! 2) (at2 tgt r p)) * at2 msk r p"
    if "p < ?Lt" for p
  proof -
    have "data pr ! (r * ?Lt + p) = data g ! (r * ?Lt + p) * data msk ! (r * ?Lt + p)"
      using flat_index_less [OF r that] prd' by simp
    then show ?thesis using G(5) [OF r that] shG sm' by (simp add: at2_def)
  qed
  have "data raw ! r = (\<Sum>p\<leftarrow>[0..<?Lt]. data pr ! (r * ?Lt + p))"
    using r raw' by simp
  also have "\<dots> = (\<Sum>p\<leftarrow>[0..<?Lt].
       at3 ?G r p (norm_index (shape outputs ! 2) (at2 tgt r p)) * at2 msk r p)"
  proof (intro arg_cong [where f = sum_list] map_cong refl)
    fix p assume "p \<in> set [0..<?Lt]"
    then have "p < ?Lt" by simp
    then show "data pr ! (r * ?Lt + p)
      = at3 ?G r p (norm_index (shape outputs ! 2) (at2 tgt r p)) * at2 msk r p"
      by (rule eq)
  qed
  finally show "data raw ! r = (\<Sum>p\<leftarrow>[0..<?Lt].
       at3 ?G r p (norm_index (shape outputs ! 2) (at2 tgt r p)) * at2 msk r p)" .
qed

text \<open>The entries of \<open>log_softmax\<close>: each minus the logarithm of the sum of the
  exponentials along its vocabulary slice.\<close>

lemma log_softmax_at3:
  assumes wf: "wf_tensor t" and rk: "length (shape t) = 3"
    and r: "r < shape t ! 0" and p: "p < shape t ! 1" and v: "v < shape t ! 2"
  shows "at3 (log_softmax t) r p v
    = at3 t r p v - ln (\<Sum>j\<leftarrow>[0..<shape t ! 2]. exp (at3 t r p j))"
proof -
  let ?L = "shape t ! 1" and ?V = "shape t ! 2"
  let ?i = "(r * ?L + p) * ?V + v"
  have sh: "shape t = [shape t ! 0, ?L, ?V]" using rank3_shape [OF rk] .
  have lst: "last (shape t) = ?V" and ne: "shape t \<noteq> []" by (subst sh, simp)+
  have "?i < shape t ! 0 * ?L * ?V"
    using flat_index_less [OF flat_index_less [OF r p] v] .
  moreover have "prod_list (shape t) = shape t ! 0 * ?L * ?V" by (subst sh) simp
  ultimately have i: "?i < length (data t)" using wf by (simp add: wf_tensor_def)
  have d: "?i div ?V = r * ?L + p" using v by simp
  have "data (log_softmax t) ! ?i
      = data t ! ?i - ln (\<Sum>j\<leftarrow>[0..<?V]. exp (data t ! ((?i div ?V) * ?V + j)))"
    using i by (simp add: log_softmax_def Let_def lst ne)
  then have "data (log_softmax t) ! ?i
      = data t ! ?i - ln (\<Sum>j\<leftarrow>[0..<?V]. exp (data t ! ((r * ?L + p) * ?V + j)))"
    unfolding d .
  moreover have "shape (log_softmax t) = shape t" by (simp add: log_softmax_def Let_def)
  ultimately show ?thesis by (simp add: at3_def)
qed

lemma cloze_normalize_Inr:
  assumes cn: "cloze_normalize self raw msk = Inr nrm"
    and sr: "shape raw = [N]" and lr: "length (data raw) = N"
    and sm: "length (shape msk) = 2" "shape msk ! 0 = N"
  shows "shape nrm = [N]" and "length (data nrm) = N"
    and "\<And>r. r < N \<Longrightarrow> data nrm ! r =
           (if 0 < length_penalty self
            then fdiv (data raw ! r)
                   (fpow (\<Sum>p\<leftarrow>[0..<shape msk ! 1]. data msk ! (r * (shape msk ! 1) + p))
                      (length_penalty self))
            else Fin (data raw ! r))"
proof -
  let ?Lt = "shape msk ! 1"
  let ?s = "Tensor [N] (map (\<lambda>r. \<Sum>p\<leftarrow>[0..<?Lt]. data msk ! (r * ?Lt + p)) [0..<N])"
  have s: "sum_dim1 msk = Inr ?s" using sm by (simp add: sum_dim1_def Let_def)
  have nrm: "nrm = (if 0 < length_penalty self
      then Tensor [N] (map2 fdiv (data raw) (data (tpow ?s (length_penalty self))))
      else finite_tensor raw)"
    using cn s sr by (auto simp: cloze_normalize_def ebind_def tdiv_def tpow_def split: if_splits)
  have lp: "length (data (tpow ?s (length_penalty self))) = N" by (simp add: tpow_def)
  show "shape nrm = [N]" using nrm sr by (simp add: finite_tensor_def)
  show "length (data nrm) = N" using nrm lr by (simp add: finite_tensor_def tpow_def)
  fix r assume r: "r < N"
  show "data nrm ! r =
           (if 0 < length_penalty self
            then fdiv (data raw ! r)
                   (fpow (\<Sum>p\<leftarrow>[0..<?Lt]. data msk ! (r * ?Lt + p)) (length_penalty self))
            else Fin (data raw ! r))"
    using r lr nrm map2_upt [OF lr lp, of fdiv] by (simp add: finite_tensor_def tpow_def)
qed

lemma cloze_normalize_total:
  assumes "shape raw = [N]" and "length (shape msk) = 2" and "shape msk ! 0 = N"
  shows "\<exists>nrm. cloze_normalize self raw msk = Inr nrm \<and> shape nrm = [N]"
  using assms
  by (simp add: cloze_normalize_def sum_dim1_def Let_def ebind_def tdiv_def tpow_def
      finite_tensor_def)

lemma cloze_flatten_Inr:
  assumes "cloze_flatten input_ids position_ids attention_mask target_ids logit_mask
             = Inr (nc, inp, pos, att, tgt, msk)"
  shows "data tgt = data target_ids" and "data msk = data logit_mask"
    and "wf_tensor logit_mask \<Longrightarrow> wf_tensor msk"
    and "length (shape tgt) = 2 \<Longrightarrow> shape tgt ! 1 = last (shape target_ids)"
    and "length (shape input_ids) \<noteq> 3 \<Longrightarrow>
           nc = None \<and> inp = input_ids \<and> pos = position_ids \<and> att = attention_mask
           \<and> tgt = target_ids \<and> msk = logit_mask"
proof -
  show "length (shape input_ids) \<noteq> 3 \<Longrightarrow>
           nc = None \<and> inp = input_ids \<and> pos = position_ids \<and> att = attention_mask
           \<and> tgt = target_ids \<and> msk = logit_mask"
    using assms by (simp add: cloze_flatten_def)
  show "data tgt = data target_ids" and "data msk = data logit_mask"
    and "wf_tensor logit_mask \<Longrightarrow> wf_tensor msk"
    using assms
    by (auto simp: cloze_flatten_def flatten_last_def ebind_eq_Inr split: if_splits
             dest: reshape_infer_Inr(1) reshape_infer_Inr(5))
  show "shape tgt ! 1 = last (shape target_ids)" if "length (shape tgt) = 2"
  proof (cases "length (shape input_ids) = 3")
    case True
    with assms obtain k where "size_last target_ids = Inr k"
      and "reshape_infer target_ids [k] = Inr tgt"
      by (auto simp: cloze_flatten_def flatten_last_def ebind_eq_Inr)
    then show ?thesis
      using reshape_infer_Inr(2) [of target_ids "[k]" tgt]
      by (auto simp: size_last_def split: if_splits)
  next
    case False
    with assms have "tgt = target_ids" by (simp add: cloze_flatten_def)
    then show ?thesis using that rank2_shape [OF that] by (metis last.simps list.distinct(1) nth_Cons_0 nth_Cons_Suc One_nat_def)
  qed
qed

lemma cloze_flatten_mask_last:
  assumes "cloze_flatten input_ids position_ids attention_mask target_ids logit_mask
             = Inr (nc, inp, pos, att, tgt, msk)"
    and "length (shape msk) = 2"
  shows "shape msk ! 1 = last (shape logit_mask)"
proof (cases "length (shape input_ids) = 3")
  case True
  with assms(1) obtain k where "size_last logit_mask = Inr k"
    and "reshape_infer logit_mask [k] = Inr msk"
    by (auto simp: cloze_flatten_def flatten_last_def ebind_eq_Inr)
  then show ?thesis
    using reshape_infer_Inr(2) [of logit_mask "[k]" msk]
    by (auto simp: size_last_def split: if_splits)
next
  case False
  with assms(1) have "msk = logit_mask" by (simp add: cloze_flatten_def)
  moreover have "last [a, b] = [a, b] ! 1" for a b :: nat by simp
  ultimately show ?thesis using rank2_shape [OF assms(2)] by metis
qed

lemma unflatten_shape_only:
  assumes "unflatten nc t = Inr t'" and "shape u = shape t"
  shows "unflatten nc u = Inr (Tensor (shape t') (data u))"
  using assms
  by (cases nc; cases u) (auto simp: unflatten_def reshape_infer_def Let_def split: if_splits)

lemma cloze_logits_length_penalty:
  "cloze_logits (self\<lparr>length_penalty := q\<rparr>) outputs tgt msk = cloze_logits self outputs tgt msk"
  by (simp add: cloze_logits_def)

text \<open>
  A returning call, row by row. The rows are those of the flattened batch; \<open>Lt\<close> is the
  length of a row of targets.
\<close>

lemma ClozeModel_forward_rows:
  assumes fw: "ClozeModel_forward self model input_ids position_ids attention_mask target_ids
                 logit_mask = (Inr (scores, mems), [(inp, pos, att)])"
    and lm: "model inp pos att = Inr (outputs, mems')"
    and wfm: "wf_tensor logit_mask"
  shows "length (shape outputs) = 3"
    and "last (shape logit_mask) = last (shape target_ids)"
    and "\<And>r p. r < length (data scores) \<Longrightarrow> p < last (shape target_ids) \<Longrightarrow>
           r < shape outputs ! 0 \<and> p < shape outputs ! 1
           \<and> index_ok (shape outputs ! 2)
                (data target_ids ! (r * last (shape target_ids) + p))"
    and "\<And>r. r < length (data scores) \<Longrightarrow>
           data scores ! r =
             (if 0 < length_penalty self
              then fdiv
                (\<Sum>p\<leftarrow>[0..<last (shape target_ids)].
                   at3 (if take_softmax self then log_softmax outputs else outputs) r p
                      (norm_index (shape outputs ! 2)
                         (data target_ids ! (r * last (shape target_ids) + p)))
                   * data logit_mask ! (r * last (shape target_ids) + p))
                (fpow (\<Sum>p\<leftarrow>[0..<last (shape target_ids)].
                         data logit_mask ! (r * last (shape target_ids) + p))
                   (length_penalty self))
              else Fin
                (\<Sum>p\<leftarrow>[0..<last (shape target_ids)].
                   at3 (if take_softmax self then log_softmax outputs else outputs) r p
                      (norm_index (shape outputs ! 2)
                         (data target_ids ! (r * last (shape target_ids) + p)))
                   * data logit_mask ! (r * last (shape target_ids) + p)))"
    and "length (shape input_ids) \<noteq> 3 \<Longrightarrow>
           length (shape target_ids) = 2 \<and> shape logit_mask = shape target_ids
           \<and> shape scores = [shape target_ids ! 0]
           \<and> length (data scores) = shape target_ids ! 0
           \<and> last (shape target_ids) = shape target_ids ! 1
           \<and> inp = input_ids \<and> pos = position_ids \<and> att = attention_mask"
proof -
  let ?G = "if take_softmax self then log_softmax outputs else outputs"
  let ?Lt = "last (shape target_ids)"
  from fw lm obtain nc tgt msk raw nrm where
    fl: "cloze_flatten input_ids position_ids attention_mask target_ids logit_mask
           = Inr (nc, inp, pos, att, tgt, msk)"
    and cl: "cloze_logits self outputs tgt msk = Inr raw"
    and cn: "cloze_normalize self raw msk = Inr nrm"
    and un: "unflatten nc nrm = Inr scores"
    unfolding ClozeModel_forward_Inr by auto
  note F = cloze_flatten_Inr [OF fl]
  note C = cloze_logits_Inr [OF cl F(3) [OF wfm]]
  have Lt: "shape tgt ! 1 = ?Lt" using F(4) [OF C(1)] .
  have rm: "length (shape msk) = 2" and m0: "shape msk ! 0 = shape tgt ! 0"
    and m1: "shape msk ! 1 = ?Lt"
    using C(1) C(3) Lt by simp_all
  note N = cloze_normalize_Inr [OF cn C(4) C(5) rm m0]
  have ds: "data scores = data nrm" using unflatten_data [OF un] .
  have len: "length (data scores) = shape tgt ! 0" using ds N(2) by simp
  show "length (shape outputs) = 3" using C(2) .
  show "last (shape logit_mask) = ?Lt"
    using cloze_flatten_mask_last [OF fl rm] m1 by simp
  show "r < shape outputs ! 0 \<and> p < shape outputs ! 1
      \<and> index_ok (shape outputs ! 2) (data target_ids ! (r * ?Lt + p))"
    if "r < length (data scores)" "p < ?Lt" for r p
    using C(6) [of r p] that len Lt F(1) by (simp add: at2_def)
  show "data scores ! r =
      (if 0 < length_penalty self
       then fdiv
         (\<Sum>p\<leftarrow>[0..<?Lt]. at3 ?G r p
             (norm_index (shape outputs ! 2) (data target_ids ! (r * ?Lt + p)))
            * data logit_mask ! (r * ?Lt + p))
         (fpow (\<Sum>p\<leftarrow>[0..<?Lt]. data logit_mask ! (r * ?Lt + p)) (length_penalty self))
       else Fin
         (\<Sum>p\<leftarrow>[0..<?Lt]. at3 ?G r p
             (norm_index (shape outputs ! 2) (data target_ids ! (r * ?Lt + p)))
            * data logit_mask ! (r * ?Lt + p)))"
    if "r < length (data scores)" for r
  proof -
    have r: "r < shape tgt ! 0" using that len by simp
    have "data raw ! r = (\<Sum>p\<leftarrow>[0..<?Lt]. at3 ?G r p
             (norm_index (shape outputs ! 2) (data target_ids ! (r * ?Lt + p)))
            * data logit_mask ! (r * ?Lt + p))"
      using C(7) [OF r] Lt m1 F(1) F(2) by (simp add: at2_def)
    then show ?thesis using N(3) [OF r] ds m1 F(2) by simp
  qed
  show "length (shape target_ids) = 2 \<and> shape logit_mask = shape target_ids
      \<and> shape scores = [shape target_ids ! 0]
      \<and> length (data scores) = shape target_ids ! 0
      \<and> ?Lt = shape target_ids ! 1
      \<and> inp = input_ids \<and> pos = position_ids \<and> att = attention_mask"
    if "length (shape input_ids) \<noteq> 3"
  proof -
    from F(5) [OF that] have e: "nc = None" "tgt = target_ids" "msk = logit_mask"
      "inp = input_ids" "pos = position_ids" "att = attention_mask" by simp_all
    from un e(1) have "scores = nrm" by (simp add: unflatten_def)
    with N(1) C(1) C(3) len Lt e show ?thesis by simp
  qed
qed

lemma ClozeModel_forward_trace_2d:
  assumes "ClozeModel_forward self model input_ids position_ids attention_mask target_ids
             logit_mask = (Inr res, tr)"
    and "length (shape input_ids) \<noteq> 3"
  shows "tr = [(input_ids, position_ids, attention_mask)]"
  using assms
  by (auto simp: ClozeModel_forward_def cloze_flatten_def split: sum.splits prod.splits)

lemma sum_list_upt_lessThan: "(\<Sum>p\<leftarrow>[0..<n]. f p) = (\<Sum>p<n. f p)"
  for f :: "nat \<Rightarrow> real"
  by (simp add: interv_sum_list_conv_sum_set_nat atLeast0LessThan)

text \<open>
  C1, as the claim states it, fails for a model with a positive \<open>length_penalty\<close>: with
  penalty 1, raw outputs and a mask of two ones, the masked sum of the row is 5 and the
  score returned is 5 / 2.
\<close>

theorem cloze_score_counterexample:
  "ClozeModel_forward \<lparr>take_softmax = False, length_penalty = 1\<rparr> example_lm example_input_ids
       example_position_ids (example_index 1) example_target_ids (example_logit_mask 1 1)
     = (Inr (Tensor [1] [Fin (5 / 2)], [7, 8]),
        [(example_input_ids, example_position_ids, example_index 1)])
   \<and> (\<Sum>p<2. at2 (example_logit_mask 1 1) 0 p
          * at3 (Tensor [1, 2, 2] [1, 2, 3, 4 :: real]) 0 p
              (norm_index 2 (at2 example_target_ids 0 p))) = 5
   \<and> Fin (5 / 2) \<noteq> Fin 5"
proof -
  have "ClozeModel_forward \<lparr>take_softmax = False, length_penalty = 1\<rparr> example_lm
       example_input_ids example_position_ids (example_index 1) example_target_ids
       (example_logit_mask 1 1)
     = (Inr (Tensor [1] [Fin (5 / 2)], [7, 8]),
        [(example_input_ids, example_position_ids, example_index 1)])"
    by (simp add: ClozeModel_forward_def cloze_flatten_def cloze_logits_def
        cloze_normalize_def unflatten_def gather_targets_def tmul_def sum_dim1_def
        tdiv_def tpow_def fpow_def ebind_def index_ok_def norm_index_def upt_rec
        example_lm_def example_input_ids_def example_target_ids_def example_logit_mask_def)
  moreover have "(\<Sum>p<2. at2 (example_logit_mask 1 1) 0 p
          * at3 (Tensor [1, 2, 2] [1, 2, 3, 4 :: real]) 0 p
              (norm_index 2 (at2 example_target_ids 0 p))) = 5"
    by (simp add: numeral_2_eq_2 at2_def at3_def norm_index_def example_target_ids_def
        example_logit_mask_def)
  ultimately show ?thesis by simp
qed

text \<open>
  C1, amended. For a call with an \<open>input_ids\<close> of rank 2 that returns, the scores have
  one entry per row of \<open>target_ids\<close>, every target is a valid vocabulary index, and the
  score of row \<open>r\<close> is the sum over the positions \<open>p\<close> of
  \<open>logit_mask[r, p] * G[r, p, target_ids[r, p]]\<close> when \<open>length_penalty\<close> is not
  positive (0.0 by default); with a positive \<open>length_penalty\<close> it is that sum divided by
  the power of the row's mask sum. \<open>G\<close> is the output of the language model when
  \<open>take_softmax\<close> is off, and its log-softmax along the vocabulary when it is on: the
  entry minus the logarithm of the sum of the exponentials of its vocabulary slice.
\<close>

theorem cloze_score_masked_sum:
  assumes fw: "ClozeModel_forward self model input_ids position_ids attention_mask target_ids
                 logit_mask = (Inr (scores, mems), tr)"
    and rk: "length (shape input_ids) = 2"
    and lm: "model input_ids position_ids attention_mask = Inr (outputs, mems')"
    and wf: "wf_tensor outputs"
    and wfm: "wf_tensor logit_mask"
    and r: "r < shape target_ids ! 0"
  shows "shape scores = [shape target_ids ! 0]
    \<and> (\<forall>p<shape target_ids ! 1. index_ok (shape outputs ! 2) (at2 target_ids r p))
    \<and> (\<not> 0 < length_penalty self \<longrightarrow>
        data scores ! r =
          Fin (\<Sum>p<shape target_ids ! 1. at2 logit_mask r p *
                (if take_softmax self
                 then at3 outputs r p (norm_index (shape outputs ! 2) (at2 target_ids r p))
                      - ln (\<Sum>j<shape outputs ! 2. exp (at3 outputs r p j))
                 else at3 outputs r p (norm_index (shape outputs ! 2) (at2 target_ids r p)))))
    \<and> (0 < length_penalty self \<longrightarrow>
        data scores ! r =
          fdiv (\<Sum>p<shape target_ids ! 1. at2 logit_mask r p *
                (if take_softmax self
                 then at3 outputs r p (norm_index (shape outputs ! 2) (at2 target_ids r p))
                      - ln (\<Sum>j<shape outputs ! 2. exp (at3 outputs r p j))
                 else at3 outputs r p (norm_index (shape outputs ! 2) (at2 target_ids r p))))
            (fpow (\<Sum>p<shape target_ids ! 1. at2 logit_mask r p) (length_penalty self)))"
proof -
  let ?G = "if take_softmax self then log_softmax outputs else outputs"
  let ?Lt = "shape target_ids ! 1" and ?V = "shape outputs ! 2"
  let ?g = "\<lambda>p. if take_softmax self
                 then at3 outputs r p (norm_index ?V (at2 target_ids r p))
                      - ln (\<Sum>j<?V. exp (at3 outputs r p j))
                 else at3 outputs r p (norm_index ?V (at2 target_ids r p))"
  have rk3: "length (shape input_ids) \<noteq> 3" using rk by simp
  have tr: "tr = [(input_ids, position_ids, attention_mask)]"
    using ClozeModel_forward_trace_2d [OF fw rk3] .
  note R = ClozeModel_forward_rows [OF fw [unfolded tr] lm wfm]
  from R(5) [OF rk3] have rt: "length (shape target_ids) = 2"
    and sm: "shape logit_mask = shape target_ids"
    and ss: "shape scores = [shape target_ids ! 0]"
    and len: "length (data scores) = shape target_ids ! 0"
    and Lt: "last (shape target_ids) = ?Lt"
    by simp_all
  have r': "r < length (data scores)" using r len by simp
  have ok: "r < shape outputs ! 0 \<and> p < shape outputs ! 1 \<and> index_ok ?V (at2 target_ids r p)"
    if "p < ?Lt" for p
    using R(3) [OF r', of p] that Lt by (simp add: at2_def)
  have G: "at3 ?G r p (norm_index ?V (at2 target_ids r p)) = ?g p" if "p < ?Lt" for p
    using log_softmax_at3 [OF wf R(1), of r p "norm_index ?V (at2 target_ids r p)"]
      ok [OF that] norm_index_less [of ?V "at2 target_ids r p"]
    by (simp add: sum_list_upt_lessThan)
  have num: "(\<Sum>p\<leftarrow>[0..<?Lt]. at3 ?G r p (norm_index ?V (data target_ids ! (r * ?Lt + p)))
                * data logit_mask ! (r * ?Lt + p))
      = (\<Sum>p<?Lt. at2 logit_mask r p * ?g p)"
  proof -
    have "(\<Sum>p\<leftarrow>[0..<?Lt]. at3 ?G r p (norm_index ?V (data target_ids ! (r * ?Lt + p)))
                * data logit_mask ! (r * ?Lt + p))
        = (\<Sum>p<?Lt. at3 ?G r p (norm_index ?V (at2 target_ids r p)) * at2 logit_mask r p)"
      by (simp add: sum_list_upt_lessThan at2_def sm)
    also have "\<dots> = (\<Sum>p<?Lt. at2 logit_mask r p * ?g p)"
      by (intro sum.cong refl) (simp add: G mult.commute)
    finally show ?thesis .
  qed
  have den: "(\<Sum>p\<leftarrow>[0..<?Lt]. data logit_mask ! (r * ?Lt + p)) = (\<Sum>p<?Lt. at2 logit_mask r p)"
    by (simp add: sum_list_upt_lessThan at2_def sm)
  have sc: "data scores ! r =
      (if 0 < length_penalty self
       then fdiv (\<Sum>p<?Lt. at2 logit_mask r p * ?g p)
              (fpow (\<Sum>p<?Lt. at2 logit_mask r p) (length_penalty self))
       else Fin (\<Sum>p<?Lt. at2 logit_mask r p * ?g p))"
    using R(4) [OF r'] unfolding Lt num den .
  show ?thesis using ss ok sc by simp
qed

theorem cloze_score_masked_sum_witness:
  "ClozeModel_forward \<lparr>take_softmax = False, length_penalty = 0\<rparr> example_lm example_input_ids
       example_position_ids (example_index 1) example_target_ids (example_logit_mask 1 1)
     = (Inr (Tensor [1] [Fin 5], [7, 8]),
        [(example_input_ids, example_position_ids, example_index 1)])
   \<and> length (shape example_input_ids) = 2
   \<and> example_lm example_input_ids example_position_ids (example_index 1)
      = Inr (Tensor [1, 2, 2] [1, 2, 3, 4], [7, 8])
   \<and> wf_tensor (Tensor [1, 2, 2] [1, 2, 3, 4 :: real])
   \<and> wf_tensor (example_logit_mask 1 1)
   \<and> (0::nat) < shape example_target_ids ! 0
   \<and> Fin 5 = Fin (\<Sum>p<2. at2 (example_logit_mask 1 1) 0 p
                    * at3 (Tensor [1, 2, 2] [1, 2, 3, 4 :: real]) 0 p
                        (norm_index 2 (at2 example_target_ids 0 p)))"
proof -
  have fw: "ClozeModel_forward \<lparr>take_softmax = False, length_penalty = 0\<rparr> example_lm
       example_input_ids example_position_ids (example_index 1) example_target_ids
       (example_logit_mask 1 1)
     = (Inr (Tensor [1] [Fin 5], [7, 8]),
        [(example_input_ids, example_position_ids, example_index 1)])"
    by (simp add: ClozeModel_forward_def cloze_flatten_def cloze_logits_def
        cloze_normalize_def unflatten_def gather_targets_def tmul_def sum_dim1_def
        finite_tensor_def ebind_def index_ok_def norm_index_def upt_rec example_lm_def
        example_input_ids_def example_target_ids_def example_logit_mask_def)
  have rk: "length (shape example_input_ids) = 2" by (simp add: example_input_ids_def)
  have lm: "example_lm example_input_ids example_position_ids (example_index 1)
      = Inr (Tensor [1, 2, 2] [1, 2, 3, 4], [7, 8])"
    by (simp add: example_lm_def)
  have wf: "wf_tensor (Tensor [1, 2, 2] [1, 2, 3, 4 :: real])"
    by (simp add: wf_tensor_def)
  have wfm: "wf_tensor (example_logit_mask 1 1)"
    by (simp add: wf_tensor_def example_logit_mask_def)
  have r: "(0::nat) < shape example_target_ids ! 0" by (simp add: example_target_ids_def)
  from cloze_score_masked_sum [OF fw rk lm wf wfm r]
  have "Fin 5 = Fin (\<Sum>p<2. at2 (example_logit_mask 1 1) 0 p
                    * at3 (Tensor [1, 2, 2] [1, 2, 3, 4 :: real]) 0 p
                        (norm_index 2 (at2 example_target_ids 0 p)))"
    by (simp add: example_target_ids_def)
  with fw rk lm wf wfm r show ?thesis by blast
qed

lemma ClozeModel_forward_length_penalty_zero:
  assumes fw: "ClozeModel_forward self model input_ids position_ids attention_mask target_ids
                 logit_mask = (Inr (scores, mems), tr)"
    and wfm: "wf_tensor logit_mask"
  shows "\<exists>raw. ClozeModel_forward (self\<lparr>length_penalty := 0\<rparr>) model input_ids position_ids
             attention_mask target_ids logit_mask
           = (Inr (Tensor (shape scores) (map Fin raw), mems), tr)
         \<and> length raw = length (data scores)
         \<and> (\<forall>r<length raw. data scores ! r =
               (if 0 < length_penalty self
                then fdiv (raw ! r)
                       (fpow (\<Sum>p<last (shape logit_mask).
                                data logit_mask ! (r * last (shape logit_mask) + p))
                          (length_penalty self))
                else Fin (raw ! r)))"
proof -
  let ?sz = "self\<lparr>length_penalty := 0\<rparr>"
  let ?Lm = "last (shape logit_mask)"
  from fw obtain nc inp pos att tgt msk outputs raw nrm where
    fl: "cloze_flatten input_ids position_ids attention_mask target_ids logit_mask
           = Inr (nc, inp, pos, att, tgt, msk)"
    and lm: "model inp pos att = Inr (outputs, mems)" and tr: "tr = [(inp, pos, att)]"
    and cl: "cloze_logits self outputs tgt msk = Inr raw"
    and cn: "cloze_normalize self raw msk = Inr nrm"
    and un: "unflatten nc nrm = Inr scores"
    unfolding ClozeModel_forward_Inr by blast
  note F = cloze_flatten_Inr [OF fl]
  note C = cloze_logits_Inr [OF cl F(3) [OF wfm]]
  have rm: "length (shape msk) = 2" and m0: "shape msk ! 0 = shape tgt ! 0"
    using C(1) C(3) by simp_all
  have m1: "shape msk ! 1 = ?Lm" using cloze_flatten_mask_last [OF fl rm] .
  note N = cloze_normalize_Inr [OF cn C(4) C(5) rm m0]
  have ds: "data scores = data nrm" using unflatten_data [OF un] .
  have cn0: "cloze_normalize ?sz raw msk = Inr (finite_tensor raw)"
    by (simp add: cloze_normalize_def)
  have "shape (finite_tensor raw) = shape nrm" using N(1) C(4) by (simp add: finite_tensor_def)
  from unflatten_shape_only [OF un this]
  have un0: "unflatten nc (finite_tensor raw) = Inr (Tensor (shape scores) (map Fin (data raw)))"
    by (simp add: finite_tensor_def)
  have fw0: "ClozeModel_forward ?sz model input_ids position_ids attention_mask target_ids
               logit_mask = (Inr (Tensor (shape scores) (map Fin (data raw)), mems), tr)"
    unfolding ClozeModel_forward_Inr
    using fl lm tr cl cn0 un0 cloze_logits_length_penalty [where self = self and q = 0] by auto
  have len: "length (data raw) = length (data scores)" using ds N(2) C(5) by simp
  have "data scores ! r =
      (if 0 < length_penalty self
       then fdiv (data raw ! r)
              (fpow (\<Sum>p<?Lm. data logit_mask ! (r * ?Lm + p)) (length_penalty self))
       else Fin (data raw ! r))"
    if "r < length (data raw)" for r
    using N(3) [of r] that C(5) ds m1 F(2) by (simp add: sum_list_upt_lessThan)
  with fw0 len show ?thesis by blast
qed

lemma fdiv_fpow_positive:
  "0 < s \<Longrightarrow> fdiv a (fpow s q) = Fin (a / s powr q)"
  by (simp add: fpow_def)

lemma masked_sum_explicit:
  assumes wf: "wf_tensor outputs" and rk: "length (shape outputs) = 3"
    and ok: "\<And>p. p < n \<Longrightarrow> r < shape outputs ! 0 \<and> p < shape outputs ! 1
                         \<and> index_ok (shape outputs ! 2) (t p)"
  shows "(\<Sum>p\<leftarrow>[0..<n]. at3 (if sm then log_softmax outputs else outputs) r p
                             (norm_index (shape outputs ! 2) (t p)) * m p)
       = (\<Sum>p<n. m p *
            (if sm
             then at3 outputs r p (norm_index (shape outputs ! 2) (t p))
                  - ln (\<Sum>j<shape outputs ! 2. exp (at3 outputs r p j))
             else at3 outputs r p (norm_index (shape outputs ! 2) (t p))))"
proof -
  let ?V = "shape outputs ! 2"
  let ?G = "if sm then log_softmax outputs else outputs"
  let ?g = "\<lambda>p. if sm
             then at3 outputs r p (norm_index ?V (t p)) - ln (\<Sum>j<?V. exp (at3 outputs r p j))
             else at3 outputs r p (norm_index ?V (t p))"
  have G: "at3 ?G r p (norm_index ?V (t p)) = ?g p" if "p < n" for p
    using log_softmax_at3 [OF wf rk, of r p "norm_index ?V (t p)"]
      ok [OF that] norm_index_less [of ?V "t p"]
    by (simp add: sum_list_upt_lessThan)
  have "(\<Sum>p\<leftarrow>[0..<n]. at3 ?G r p (norm_index ?V (t p)) * m p)
      = (\<Sum>p<n. at3 ?G r p (norm_index ?V (t p)) * m p)"
    by (simp add: sum_list_upt_lessThan)
  also have "\<dots> = (\<Sum>p<n. m p * ?g p)"
    by (intro sum.cong refl) (simp add: G mult.commute)
  finally show ?thesis .
qed

text \<open>
  C2. On a call that returns, let \<open>raw[r]\<close> be the masked sum of row \<open>r\<close>: the sum over
  the positions \<open>p\<close> of \<open>logit_mask[r, p] * G[r, p, target_ids[r, p]]\<close>, with \<open>G\<close> the
  output of the language model, or its log-softmax along the vocabulary when
  \<open>take_softmax\<close> is on. With a positive \<open>length_penalty\<close> the score of row \<open>r\<close> is
  \<open>raw[r]\<close> divided by the power of the sum of that row's \<open>logit_mask\<close> (a quotient of
  real numbers when that sum is positive); with any other \<open>length_penalty\<close>, and so with
  0.0, the score is \<open>raw[r]\<close> itself and nothing is divided. The masked sums are also what
  the same call returns on the same model with \<open>length_penalty\<close> set to 0. Rows are those
  of the flattened batch, read in row-major order; \<open>Lt\<close> is the length of a row.
\<close>

theorem length_penalty_normalization:
  assumes fw: "ClozeModel_forward self model input_ids position_ids attention_mask target_ids
                 logit_mask = (Inr (scores, mems), [(inp, pos, att)])"
    and lm: "model inp pos att = Inr (outputs, mems')"
    and wf: "wf_tensor outputs"
    and wfm: "wf_tensor logit_mask"
  shows "\<exists>raw. length raw = length (data scores)
         \<and> last (shape logit_mask) = last (shape target_ids)
         \<and> (\<forall>r<length raw.
              raw ! r =
                (\<Sum>p<last (shape logit_mask).
                   data logit_mask ! (r * last (shape logit_mask) + p) *
                   (if take_softmax self
                    then at3 outputs r p
                           (norm_index (shape outputs ! 2)
                              (data target_ids ! (r * last (shape logit_mask) + p)))
                         - ln (\<Sum>j<shape outputs ! 2. exp (at3 outputs r p j))
                    else at3 outputs r p
                           (norm_index (shape outputs ! 2)
                              (data target_ids ! (r * last (shape logit_mask) + p)))))
            \<and> (0 < length_penalty self \<longrightarrow>
                 data scores ! r =
                   fdiv (raw ! r)
                     (fpow (\<Sum>p<last (shape logit_mask).
                              data logit_mask ! (r * last (shape logit_mask) + p))
                        (length_penalty self)))
            \<and> (0 < length_penalty self
                 \<and> 0 < (\<Sum>p<last (shape logit_mask).
                           data logit_mask ! (r * last (shape logit_mask) + p)) \<longrightarrow>
                 data scores ! r =
                   Fin (raw ! r /
                     (\<Sum>p<last (shape logit_mask).
                        data logit_mask ! (r * last (shape logit_mask) + p))
                       powr length_penalty self))
            \<and> (\<not> 0 < length_penalty self \<longrightarrow> data scores ! r = Fin (raw ! r)))
         \<and> (\<not> 0 < length_penalty self \<longrightarrow> scores = Tensor (shape scores) (map Fin raw))
         \<and> ClozeModel_forward (self\<lparr>length_penalty := 0\<rparr>) model input_ids position_ids
             attention_mask target_ids logit_mask
           = (Inr (Tensor (shape scores) (map Fin raw), mems), [(inp, pos, att)])
         \<and> (length (shape input_ids) \<noteq> 3 \<longrightarrow>
              shape logit_mask = shape target_ids \<and> length (shape target_ids) = 2
              \<and> length raw = shape target_ids ! 0
              \<and> last (shape logit_mask) = shape logit_mask ! 1)"
proof -
  let ?Lm = "last (shape logit_mask)" and ?V = "shape outputs ! 2"
  let ?sz = "self\<lparr>length_penalty := 0\<rparr>"
  let ?S = "\<lambda>r. \<Sum>p<?Lm. data logit_mask ! (r * ?Lm + p) *
                   (if take_softmax self
                    then at3 outputs r p (norm_index ?V (data target_ids ! (r * ?Lm + p)))
                         - ln (\<Sum>j<?V. exp (at3 outputs r p j))
                    else at3 outputs r p (norm_index ?V (data target_ids ! (r * ?Lm + p))))"
  let ?M = "\<lambda>r. \<Sum>p<?Lm. data logit_mask ! (r * ?Lm + p)"
  note R = ClozeModel_forward_rows [OF fw lm wfm]
  have Lt: "last (shape target_ids) = ?Lm" using R(2) by simp
  from ClozeModel_forward_length_penalty_zero [OF fw wfm] obtain raw where
    fw0: "ClozeModel_forward ?sz model input_ids position_ids attention_mask target_ids
            logit_mask = (Inr (Tensor (shape scores) (map Fin raw), mems), [(inp, pos, att)])"
    and len: "length raw = length (data scores)"
    and sc: "\<And>r. r < length raw \<Longrightarrow> data scores ! r =
               (if 0 < length_penalty self
                then fdiv (raw ! r) (fpow (?M r) (length_penalty self))
                else Fin (raw ! r))"
    by blast
  note R0 = ClozeModel_forward_rows [OF fw0 lm wfm]
  have raw: "raw ! r = ?S r" if r: "r < length raw" for r
  proof -
    have r': "r < length (data (Tensor (shape scores) (map Fin raw)))" using r by simp
    have ok: "r < shape outputs ! 0 \<and> p < shape outputs ! 1
        \<and> index_ok ?V (data target_ids ! (r * ?Lm + p))"
      if "p < ?Lm" for p
      using R0(3) [OF r', of p] that Lt by simp
    have "Fin (raw ! r) =
        Fin (\<Sum>p\<leftarrow>[0..<?Lm].
               at3 (if take_softmax self then log_softmax outputs else outputs) r p
                 (norm_index ?V (data target_ids ! (r * ?Lm + p)))
               * data logit_mask ! (r * ?Lm + p))"
      using R0(4) [OF r'] r unfolding Lt by simp
    then show ?thesis
      using masked_sum_explicit [OF wf R(1), of ?Lm r
          "\<lambda>p. data target_ids ! (r * ?Lm + p)" "take_softmax self"
          "\<lambda>p. data logit_mask ! (r * ?Lm + p)", OF ok]
      by simp
  qed
  have same: "scores = Tensor (shape scores) (map Fin raw)" if "\<not> 0 < length_penalty self"
  proof -
    have "data scores = map Fin raw"
      using len sc that by (intro nth_equalityI) simp_all
    then show ?thesis by (cases scores) simp
  qed
  have two: "shape logit_mask = shape target_ids \<and> length (shape target_ids) = 2
      \<and> length raw = shape target_ids ! 0 \<and> ?Lm = shape logit_mask ! 1"
    if "length (shape input_ids) \<noteq> 3"
  proof -
    from R(5) [OF that] have a: "length (shape target_ids) = 2"
      and b: "shape logit_mask = shape target_ids"
      and c: "length (data scores) = shape target_ids ! 0"
      and d: "last (shape target_ids) = shape target_ids ! 1"
      by blast+
    show ?thesis unfolding b using a c d len by simp
  qed
  have rows: "raw ! r = ?S r
      \<and> (0 < length_penalty self \<longrightarrow>
           data scores ! r = fdiv (raw ! r) (fpow (?M r) (length_penalty self)))
      \<and> (0 < length_penalty self \<and> 0 < ?M r \<longrightarrow>
           data scores ! r = Fin (raw ! r / ?M r powr length_penalty self))
      \<and> (\<not> 0 < length_penalty self \<longrightarrow> data scores ! r = Fin (raw ! r))"
    if "r < length raw" for r
    using raw [OF that] sc [OF that] by (simp add: fdiv_fpow_positive)
  show ?thesis
    by (intro exI [of _ raw] conjI; use len R(2) rows same fw0 two in blast)
qed

theorem length_penalty_normalization_witness:
  "ClozeModel_forward \<lparr>take_softmax = False, length_penalty = 1\<rparr> example_lm example_input_ids
       example_position_ids (example_index 1) example_target_ids (example_logit_mask 2 0)
     = (Inr (Tensor [1] [Fin 2], [7, 8]),
        [(example_input_ids, example_position_ids, example_index 1)])
   \<and> example_lm example_input_ids example_position_ids (example_index 1)
      = Inr (Tensor [1, 2, 2] [1, 2, 3, 4], [7, 8])
   \<and> wf_tensor (Tensor [1, 2, 2] [1, 2, 3, 4 :: real])
   \<and> wf_tensor (example_logit_mask 2 0)
   \<and> ClozeModel_forward \<lparr>take_softmax = False, length_penalty = 0\<rparr> example_lm example_input_ids
       example_position_ids (example_index 1) example_target_ids (example_logit_mask 2 0)
     = (Inr (Tensor [1] [Fin 4], [7, 8]),
        [(example_input_ids, example_position_ids, example_index 1)])
   \<and> (\<Sum>p<2. data (example_logit_mask 2 0) ! (0 * 2 + p)
          * at3 (Tensor [1, 2, 2] [1, 2, 3, 4 :: real]) 0 p
              (norm_index 2 (data example_target_ids ! (0 * 2 + p)))) = 4
   \<and> (\<Sum>p<2. data (example_logit_mask 2 0) ! (0 * 2 + p)) = 2
   \<and> (\<exists>raw. length raw = 1 \<and> raw ! 0 = 4
         \<and> Tensor [1] [Fin 4] = Tensor [1] (map Fin raw)
         \<and> Fin 2 = Fin (raw ! 0 / (2 powr 1)))"
proof -
  have fw: "ClozeModel_forward \<lparr>take_softmax = False, length_penalty = 1\<rparr> example_lm
       example_input_ids example_position_ids (example_index 1) example_target_ids
       (example_logit_mask 2 0)
     = (Inr (Tensor [1] [Fin 2], [7, 8]),
        [(example_input_ids, example_position_ids, example_index 1)])"
    by (simp add: ClozeModel_forward_def cloze_flatten_def cloze_logits_def
        cloze_normalize_def unflatten_def gather_targets_def tmul_def sum_dim1_def
        tdiv_def tpow_def fpow_def ebind_def index_ok_def norm_index_def upt_rec
        example_lm_def example_input_ids_def example_target_ids_def example_logit_mask_def)
  have fw0: "ClozeModel_forward \<lparr>take_softmax = False, length_penalty = 0\<rparr> example_lm
       example_input_ids example_position_ids (example_index 1) example_target_ids
       (example_logit_mask 2 0)
     = (Inr (Tensor [1] [Fin 4], [7, 8]),
        [(example_input_ids, example_position_ids, example_index 1)])"
    by (simp add: ClozeModel_forward_def cloze_flatten_def cloze_logits_def
        cloze_normalize_def unflatten_def gather_targets_def tmul_def sum_dim1_def
        finite_tensor_def ebind_def index_ok_def norm_index_def upt_rec example_lm_def
        example_input_ids_def example_target_ids_def example_logit_mask_def)
  have lm: "example_lm example_input_ids example_position_ids (example_index 1)
      = Inr (Tensor [1, 2, 2] [1, 2, 3, 4], [7, 8])"
    by (simp add: example_lm_def)
  have wf: "wf_tensor (Tensor [1, 2, 2] [1, 2, 3, 4 :: real])"
    by (simp add: wf_tensor_def)
  have wfm: "wf_tensor (example_logit_mask 2 0)"
    by (simp add: wf_tensor_def example_logit_mask_def)
  have lst: "last (shape (example_logit_mask 2 0)) = 2"
    by (simp add: example_logit_mask_def)
  have S: "(\<Sum>p<2. data (example_logit_mask 2 0) ! (0 * 2 + p)
          * at3 (Tensor [1, 2, 2] [1, 2, 3, 4 :: real]) 0 p
              (norm_index 2 (data example_target_ids ! (0 * 2 + p)))) = 4"
    by (simp add: numeral_2_eq_2 at3_def norm_index_def example_target_ids_def
        example_logit_mask_def)
  have M: "(\<Sum>p<2. data (example_logit_mask 2 0) ! (0 * 2 + p)) = 2"
    by (simp add: numeral_2_eq_2 example_logit_mask_def)
  have "\<exists>raw. length raw = 1 \<and> raw ! 0 = 4
         \<and> Tensor [1] [Fin 4] = Tensor [1] (map Fin raw)
         \<and> Fin 2 = Fin (raw ! 0 / (2 powr 1))"
    using length_penalty_normalization [OF fw lm wf wfm]
    apply (elim exE conjE)
    subgoal premises prems for raw
      using prems fw0
      by (intro exI [of _ raw])
         (simp add: numeral_2_eq_2 at3_def norm_index_def example_target_ids_def
            example_logit_mask_def)
    done
  then show ?thesis using fw lm wf wfm fw0 S M by simp
qed

text \<open>
  C9. With a positive \<open>length_penalty\<close>, whether a call returns does not depend on the
  penalty or on the sums of the mask: the division of line 49 raises nothing and nothing
  guards it. On a call that returns, a row whose \<open>logit_mask\<close> sums to 0 is divided by
  \<open>0 ** length_penalty = 0\<close>, and its score is an infinity or a not-a-number, never a
  finite number.
\<close>

theorem zero_mask_sum_not_finite:
  assumes wfm: "wf_tensor logit_mask"
    and lp: "0 < length_penalty self"
  shows "(isl (fst (ClozeModel_forward self model input_ids position_ids attention_mask
                     target_ids logit_mask))
          = isl (fst (ClozeModel_forward (self\<lparr>length_penalty := 0\<rparr>) model input_ids
                     position_ids attention_mask target_ids logit_mask)))
    \<and> (\<forall>scores mems tr r.
          ClozeModel_forward self model input_ids position_ids attention_mask target_ids
            logit_mask = (Inr (scores, mems), tr)
          \<and> r < length (data scores)
          \<and> (\<Sum>p<last (shape logit_mask).
                data logit_mask ! (r * last (shape logit_mask) + p)) = 0
          \<longrightarrow> fpow (\<Sum>p<last (shape logit_mask).
                       data logit_mask ! (r * last (shape logit_mask) + p))
                 (length_penalty self) = Fin 0
              \<and> (data scores ! r = PInf \<or> data scores ! r = NInf \<or> data scores ! r = NaN)
              \<and> (\<forall>x. data scores ! r \<noteq> Fin x))"
proof -
  let ?sz = "self\<lparr>length_penalty := 0\<rparr>"
  let ?fw = "ClozeModel_forward self model input_ids position_ids attention_mask target_ids
              logit_mask"
  let ?fz = "ClozeModel_forward ?sz model input_ids position_ids attention_mask target_ids
              logit_mask"
  have fwd: "\<not> isl (fst ?fz)" if "\<not> isl (fst ?fw)"
  proof -
    from that obtain scores mems tr where "?fw = (Inr (scores, mems), tr)"
      by (cases ?fw; cases "fst ?fw") auto
    from ClozeModel_forward_length_penalty_zero [OF this wfm] show ?thesis by auto
  qed
  have bwd: "\<not> isl (fst ?fw)" if "\<not> isl (fst ?fz)"
  proof -
    from that obtain scores mems tr where f0: "?fz = (Inr (scores, mems), tr)"
      by (cases ?fz; cases "fst ?fz") auto
    then obtain nc inp pos att tgt msk outputs raw nrm where
      fl: "cloze_flatten input_ids position_ids attention_mask target_ids logit_mask
             = Inr (nc, inp, pos, att, tgt, msk)"
      and lm: "model inp pos att = Inr (outputs, mems)"
      and cl: "cloze_logits ?sz outputs tgt msk = Inr raw"
      and cn: "cloze_normalize ?sz raw msk = Inr nrm"
      and un: "unflatten nc nrm = Inr scores"
      unfolding ClozeModel_forward_Inr by blast
    have cl': "cloze_logits self outputs tgt msk = Inr raw"
      using cl by (simp add: cloze_logits_def)
    note F = cloze_flatten_Inr [OF fl]
    note C = cloze_logits_Inr [OF cl' F(3) [OF wfm]]
    have rm: "length (shape msk) = 2" and m0: "shape msk ! 0 = shape tgt ! 0"
      using C(1) C(3) by simp_all
    from cloze_normalize_total [OF C(4) rm m0, of self] obtain nrm' where
      cn': "cloze_normalize self raw msk = Inr nrm'" and sn: "shape nrm' = [shape tgt ! 0]"
      by blast
    have "shape nrm = [shape tgt ! 0]"
      using cloze_normalize_Inr(1) [OF cn C(4) C(5) rm m0] .
    with sn have "shape nrm' = shape nrm" by simp
    from unflatten_shape_only [OF un this]
    have "unflatten nc nrm' = Inr (Tensor (shape scores) (data nrm'))" .
    with fl lm cl' cn' have "?fw = (Inr (Tensor (shape scores) (data nrm'), mems), [(inp, pos, att)])"
      unfolding ClozeModel_forward_Inr by blast
    then show ?thesis by simp
  qed
  have iff: "isl (fst ?fw) = isl (fst ?fz)" using fwd bwd by blast
  have rows: "fpow (\<Sum>p<last (shape logit_mask).
                       data logit_mask ! (r * last (shape logit_mask) + p))
                 (length_penalty self) = Fin 0
       \<and> (data scores ! r = PInf \<or> data scores ! r = NInf \<or> data scores ! r = NaN)
       \<and> (\<forall>x. data scores ! r \<noteq> Fin x)"
    if fw: "?fw = (Inr (scores, mems), tr)" and r: "r < length (data scores)"
      and z: "(\<Sum>p<last (shape logit_mask).
                data logit_mask ! (r * last (shape logit_mask) + p)) = 0"
    for scores mems tr r
  proof -
    from ClozeModel_forward_length_penalty_zero [OF fw wfm] obtain raw where
      "length raw = length (data scores)"
      and "\<And>r. r < length raw \<Longrightarrow> data scores ! r =
               (if 0 < length_penalty self
                then fdiv (raw ! r)
                       (fpow (\<Sum>p<last (shape logit_mask).
                                data logit_mask ! (r * last (shape logit_mask) + p))
                          (length_penalty self))
                else Fin (raw ! r))"
      by blast
    with r lp z have "data scores ! r = fdiv (raw ! r) (fpow 0 (length_penalty self))"
      by simp
    then show ?thesis using lp z by (simp add: fpow_def)
  qed
  show ?thesis using iff rows by blast
qed

theorem zero_mask_sum_not_finite_witness:
  "wf_tensor (example_logit_mask 1 (- 1))
   \<and> (0::real) < length_penalty \<lparr>take_softmax = False, length_penalty = 1\<rparr>
   \<and> ClozeModel_forward \<lparr>take_softmax = False, length_penalty = 1\<rparr> example_lm example_input_ids
       example_position_ids (example_index 1) example_target_ids (example_logit_mask 1 (- 1))
     = (Inr (Tensor [1] [NInf], [7, 8]),
        [(example_input_ids, example_position_ids, example_index 1)])
   \<and> (\<Sum>p<last (shape (example_logit_mask 1 (- 1))).
         data (example_logit_mask 1 (- 1))
           ! (0 * last (shape (example_logit_mask 1 (- 1))) + p)) = 0
   \<and> (data (Tensor [1] [NInf]) ! 0 = PInf \<or> data (Tensor [1] [NInf]) ! 0 = NInf
        \<or> data (Tensor [1] [NInf]) ! 0 = NaN)"
proof -
  have wfm: "wf_tensor (example_logit_mask 1 (- 1))"
    by (simp add: wf_tensor_def example_logit_mask_def)
  have lp: "(0::real) < length_penalty \<lparr>take_softmax = False, length_penalty = 1\<rparr>" by simp
  have fw: "ClozeModel_forward \<lparr>take_softmax = False, length_penalty = 1\<rparr> example_lm
       example_input_ids example_position_ids (example_index 1) example_target_ids
       (example_logit_mask 1 (- 1))
     = (Inr (Tensor [1] [NInf], [7, 8]),
        [(example_input_ids, example_position_ids, example_index 1)])"
    by (simp add: ClozeModel_forward_def cloze_flatten_def cloze_logits_def
        cloze_normalize_def unflatten_def gather_targets_def tmul_def sum_dim1_def
        tdiv_def tpow_def fpow_def ebind_def index_ok_def norm_index_def upt_rec
        example_lm_def example_input_ids_def example_target_ids_def example_logit_mask_def)
  have z: "(\<Sum>p<last (shape (example_logit_mask 1 (- 1))).
         data (example_logit_mask 1 (- 1))
           ! (0 * last (shape (example_logit_mask 1 (- 1))) + p)) = 0"
    by (simp add: example_logit_mask_def numeral_2_eq_2)
  from zero_mask_sum_not_finite [OF wfm lp, of example_lm example_input_ids
      example_position_ids "example_index 1" example_target_ids] fw z
  have "data (Tensor [1] [NInf]) ! 0 = PInf \<or> data (Tensor [1] [NInf]) ! 0 = NInf
        \<or> data (Tensor [1] [NInf]) ! 0 = NaN"
    by simp
  with wfm lp fw z show ?thesis by blast
qed

section \<open>ClozeModel: independence of the choices\<close>

lemma select_choice_props:
  assumes wf: "wf_tensor t" and rk: "2 \<le> length (shape t)" and c: "c < shape t ! 1"
  shows "shape (select_choice c t) = shape t ! 0 # drop 2 (shape t)"
    and "wf_tensor (select_choice c t)"
    and "\<And>b. b < shape t ! 0 \<Longrightarrow>
           row_at (select_choice c t) b
             = take (prod_list (drop 2 (shape t)))
                 (drop ((b * (shape t ! 1) + c) * prod_list (drop 2 (shape t))) (data t))"
    and "\<And>b k. b < shape t ! 0 \<Longrightarrow> k < prod_list (drop 2 (shape t)) \<Longrightarrow>
           data (select_choice c t) ! (b * prod_list (drop 2 (shape t)) + k)
             = data t ! ((b * (shape t ! 1) + c) * prod_list (drop 2 (shape t)) + k)"
proof -
  let ?B = "shape t ! 0" and ?C = "shape t ! 1" and ?K = "prod_list (drop 2 (shape t))"
  let ?g = "\<lambda>b. take ?K (drop ((b * ?C + c) * ?K) (data t))"
  have sc: "select_choice c t = Tensor (?B # drop 2 (shape t)) (concat (map ?g [0..<?B]))"
    by (simp add: select_choice_def Let_def)
  have len: "length (?g b) = ?K" if "b < ?B" for b
    using vec_length [OF wf rk that c] .
  show "shape (select_choice c t) = ?B # drop 2 (shape t)" by (simp add: sc)
  show "wf_tensor (select_choice c t)"
    using concat_upt_length [of ?B ?g ?K, OF len] by (simp add: sc wf_tensor_def)
  show "row_at (select_choice c t) b = ?g b" if "b < ?B" for b
    using concat_upt_row [of ?B ?g ?K b, OF len that] by (simp add: sc row_at_def Let_def)
  show "data (select_choice c t) ! (b * ?K + k) = data t ! ((b * ?C + c) * ?K + k)"
    if b: "b < ?B" and k: "k < ?K" for b k
  proof -
    have "(b * ?C + c) * ?K + ?K \<le> ?B * ?C * ?K" using block_in_range [OF b c] .
    moreover have "length (data t) = ?B * ?C * ?K"
      using wf prod_shape_rank2 [OF rk] by (simp add: wf_tensor_def)
    ultimately have "(b * ?C + c) * ?K \<le> length (data t)" by linarith
    then have "?g b ! k = data t ! ((b * ?C + c) * ?K + k)" using k by simp
    then show ?thesis using concat_upt_nth [of ?B ?g ?K b k, OF len b k] by (simp add: sc)
  qed
qed

lemma flatten_last_3:
  assumes "shape t = [B, C, L]" and "flatten_last t = Inr t'"
  shows "t' = Tensor [B * C, L] (data t)" and "0 < L"
  using assms
  by (auto simp: flatten_last_def size_last_def ebind_def reshape_infer_def Let_def
           split: if_splits)

lemma flatten_lead_2:
  assumes "shape t = B # C # rest" and "flatten_lead t = Inr t'"
  shows "t' = Tensor ((B * C) # rest) (data t)" and "0 < prod_list rest"
  using assms
  by (auto simp: flatten_lead_def reshape_infer_def Let_def mult.assoc split: if_splits)

lemma cloze_flatten_3d:
  assumes fl: "cloze_flatten input_ids position_ids attention_mask target_ids logit_mask
                 = Inr (nc, inp, pos, att, tgt, msk)"
    and si: "shape input_ids = [B, C, L]"
    and sp: "shape position_ids = B # C # ps"
    and sa: "shape attention_mask = B # C # as"
    and st: "shape target_ids = [B, C, Lt]"
    and sm: "shape logit_mask = [B, C, Lt]"
  shows "nc = Some C"
    and "inp = Tensor [B * C, L] (data input_ids)"
    and "pos = Tensor ((B * C) # ps) (data position_ids)"
    and "att = Tensor ((B * C) # as) (data attention_mask)"
    and "tgt = Tensor [B * C, Lt] (data target_ids)"
    and "msk = Tensor [B * C, Lt] (data logit_mask)"
    and "0 < L"
proof -
  from fl si obtain i' a' p' t' m' where
    i: "flatten_last input_ids = Inr i'" and a: "flatten_lead attention_mask = Inr a'"
    and p: "flatten_lead position_ids = Inr p'" and t: "flatten_last target_ids = Inr t'"
    and m: "flatten_last logit_mask = Inr m'"
    and eq: "(nc, inp, pos, att, tgt, msk) = (Some C, i', p', a', t', m')"
    by (auto simp: cloze_flatten_def ebind_eq_Inr)
  show "nc = Some C" using eq by simp
  show "inp = Tensor [B * C, L] (data input_ids)" and "0 < L"
    using flatten_last_3 [OF si i] eq by simp_all
  show "pos = Tensor ((B * C) # ps) (data position_ids)"
    using flatten_lead_2 [OF sp p] eq by simp
  show "att = Tensor ((B * C) # as) (data attention_mask)"
    using flatten_lead_2 [OF sa a] eq by simp
  show "tgt = Tensor [B * C, Lt] (data target_ids)"
    using flatten_last_3 [OF st t] eq by simp
  show "msk = Tensor [B * C, Lt] (data logit_mask)"
    using flatten_last_3 [OF sm m] eq by simp
qed

lemma at3_concat:
  assumes len: "\<And>n. n < N \<Longrightarrow> length (g n) = L * V"
    and r: "r < N" and p: "p < L" and v: "v < V"
  shows "at3 (Tensor [N, L, V] (concat (map g [0..<N]))) r p v = g r ! (p * V + v)"
proof -
  let ?xs = "concat (map g [0..<N])"
  have k: "p * V + v < L * V" using flat_index_less [OF p v] .
  have "at3 (Tensor [N, L, V] ?xs) r p v = ?xs ! ((r * L + p) * V + v)"
    by (simp add: at3_def)
  also have "(r * L + p) * V + v = r * (L * V) + (p * V + v)" by (simp add: algebra_simps)
  also have "?xs ! (r * (L * V) + (p * V + v)) = g r ! (p * V + v)"
    using len r k by (rule concat_upt_nth)
  finally show ?thesis .
qed

lemma cloze_logits_total:
  assumes rt: "length (shape tgt) = 2" and ro: "length (shape outputs) = 3"
    and sm: "shape msk = shape tgt"
    and ok: "\<And>r p. r < shape tgt ! 0 \<Longrightarrow> p < shape tgt ! 1 \<Longrightarrow>
               r < shape outputs ! 0 \<and> p < shape outputs ! 1
               \<and> index_ok (shape outputs ! 2) (at2 tgt r p)"
  shows "\<exists>raw. cloze_logits self outputs tgt msk = Inr raw"
proof -
  let ?G = "if take_softmax self then log_softmax outputs else outputs"
  let ?N = "shape tgt ! 0" and ?Lt = "shape tgt ! 1"
  have shG: "shape ?G = shape outputs" by (simp add: log_softmax_def Let_def)
  have chk: "list_all (\<lambda>i. i div ?Lt < shape ?G ! 0 \<and> i mod ?Lt < shape ?G ! 1
                \<and> index_ok (shape ?G ! 2) (data tgt ! i)) [0..<?N * ?Lt]"
    unfolding list_all_iff
  proof
    fix i assume "i \<in> set [0..<?N * ?Lt]"
    then have i: "i < ?N * ?Lt" by simp
    then have pos: "0 < ?Lt" by (cases "?Lt = 0") simp_all
    have d: "i div ?Lt < ?N" using i pos by (simp add: less_mult_imp_div_less)
    have m: "i mod ?Lt < ?Lt" using pos by simp
    have "i div ?Lt * ?Lt + i mod ?Lt = i" by (rule div_mult_mod_eq)
    then have "at2 tgt (i div ?Lt) (i mod ?Lt) = data tgt ! i" unfolding at2_def by (rule arg_cong)
    with ok [OF d m] shG
    show "i div ?Lt < shape ?G ! 0 \<and> i mod ?Lt < shape ?G ! 1
                \<and> index_ok (shape ?G ! 2) (data tgt ! i)"
      by simp
  qed
  obtain g where g: "gather_targets ?G tgt = Inr g" and sg: "shape g = shape tgt"
    using rt ro shG chk rank2_shape [OF rt]
    by (auto simp: gather_targets_def Let_def simp del: One_nat_def)
  have "\<exists>raw. ebind (tmul g msk) sum_dim1 = Inr raw"
    using sg sm rt by (simp add: tmul_def ebind_def sum_dim1_def Let_def)
  then show ?thesis using g by (simp add: cloze_logits_def ebind_def)
qed

lemma wf_concat_rows:
  assumes "\<And>n. n < N \<Longrightarrow> length (g n) = L * V"
  shows "wf_tensor (Tensor [N, L, V] (concat (map g [0..<N])))"
  using concat_upt_length [of N g "L * V", OF assms] by (simp add: wf_tensor_def)

lemma softmax_rows_eq:
  assumes lg: "\<And>n. n < N \<Longrightarrow> length (g n) = L * V"
    and lh: "\<And>n. n < M \<Longrightarrow> length (h n) = L * V"
    and r: "r < N" and s: "s < M" and eq: "g r = h s" and p: "p < L" and v: "v < V"
  shows "at3 (if sm then log_softmax (Tensor [N, L, V] (concat (map g [0..<N])))
               else Tensor [N, L, V] (concat (map g [0..<N]))) r p v
       = at3 (if sm then log_softmax (Tensor [M, L, V] (concat (map h [0..<M])))
               else Tensor [M, L, V] (concat (map h [0..<M]))) s p v"
proof -
  let ?A = "Tensor [N, L, V] (concat (map g [0..<N]))"
  let ?B = "Tensor [M, L, V] (concat (map h [0..<M]))"
  have raw: "at3 ?A r p j = at3 ?B s p j" if "j < V" for j
    using at3_concat [OF lg r p that] at3_concat [OF lh s p that] eq by simp
  have sums: "(\<Sum>j\<leftarrow>[0..<V]. exp (at3 ?A r p j)) = (\<Sum>j\<leftarrow>[0..<V]. exp (at3 ?B s p j))"
  proof (intro arg_cong [where f = sum_list] map_cong refl)
    fix j assume "j \<in> set [0..<V]"
    then have "j < V" by simp
    then show "exp (at3 ?A r p j) = exp (at3 ?B s p j)" using raw by simp
  qed
  have A: "at3 (log_softmax ?A) r p v
      = at3 ?A r p v - ln (\<Sum>j\<leftarrow>[0..<V]. exp (at3 ?A r p j))"
    using log_softmax_at3 [OF wf_concat_rows [of N g L V, OF lg], of r p v] r p v by simp
  have B: "at3 (log_softmax ?B) s p v
      = at3 ?B s p v - ln (\<Sum>j\<leftarrow>[0..<V]. exp (at3 ?B s p j))"
    using log_softmax_at3 [OF wf_concat_rows [of M h L V, OF lh], of s p v] s p v by simp
  show ?thesis using A B sums raw [OF v] by simp
qed

lemma row_at_flat:
  "row_at (Tensor (N # rest) xs) n = take (prod_list rest) (drop (n * prod_list rest) xs)"
  by (simp add: row_at_def Let_def)

lemma ClozeModel_forward_2d_intro:
  assumes rk: "length (shape input_ids) \<noteq> 3"
    and lm: "model input_ids position_ids attention_mask = Inr (outputs, mems)"
    and cl: "cloze_logits self outputs target_ids logit_mask = Inr raw"
    and cn: "cloze_normalize self raw logit_mask = Inr nrm"
  shows "ClozeModel_forward self model input_ids position_ids attention_mask target_ids
           logit_mask = (Inr (nrm, mems), [(input_ids, position_ids, attention_mask)])"
  using assms by (simp add: ClozeModel_forward_def cloze_flatten_def ebind_def unflatten_def)

lemma row_localD:
  assumes rl: "row_local model f V"
    and si: "shape inp = [N, L]" and sp: "shape pos = N # ps" and sa: "shape att = N # as"
    and wf: "wf_tensor inp" "wf_tensor pos" "wf_tensor att"
  obtains mems where
    "model inp pos att
       = Inr (Tensor [N, L, V]
               (concat (map (\<lambda>n. f (row_at inp n) (row_at pos n) (row_at att n)) [0..<N])),
              mems)"
proof -
  from rl have
    "length (shape inp) = 2 \<and> wf_tensor inp \<and> wf_tensor pos \<and> wf_tensor att
       \<and> shape pos \<noteq> [] \<and> shape pos ! 0 = shape inp ! 0
       \<and> shape att \<noteq> [] \<and> shape att ! 0 = shape inp ! 0 \<longrightarrow>
     (\<exists>mems. model inp pos att =
        Inr (Tensor [shape inp ! 0, shape inp ! 1, V]
               (concat (map (\<lambda>n. f (row_at inp n) (row_at pos n) (row_at att n))
                          [0..<shape inp ! 0])),
             mems))"
    unfolding row_local_def by blast
  moreover have "length (shape inp) = 2 \<and> wf_tensor inp \<and> wf_tensor pos \<and> wf_tensor att
       \<and> shape pos \<noteq> [] \<and> shape pos ! 0 = shape inp ! 0
       \<and> shape att \<noteq> [] \<and> shape att ! 0 = shape inp ! 0"
    using si sp sa wf by simp
  ultimately obtain mems where "model inp pos att =
        Inr (Tensor [shape inp ! 0, shape inp ! 1, V]
               (concat (map (\<lambda>n. f (row_at inp n) (row_at pos n) (row_at att n))
                          [0..<shape inp ! 0])),
             mems)"
    by blast
  then show ?thesis using that si by simp
qed

lemma row_local_length: "row_local model f V \<Longrightarrow> length (f i p a) = length i * V"
  by (simp add: row_local_def)

text \<open>
  C3. Take a batch with a choice dimension: \<open>input_ids\<close> of shape \<open>[B, C, L]\<close>,
  \<open>target_ids\<close> and \<open>logit_mask\<close> of shape \<open>[B, C, Lt]\<close>, \<open>position_ids\<close> and
  \<open>attention_mask\<close> with leading sizes \<open>B\<close> and \<open>C\<close>, all well-formed, and a
  row-local language model. When \<^verbatim>\<open>ClozeModel.forward\<close> returns on it, the scores have
  shape \<open>[B, C]\<close>, and for every choice \<open>c\<close> the call on the batch of choice \<open>c\<close> alone
  (a batch of rank 2) returns as well, with \<open>B\<close> scores: entry \<open>[b, c]\<close> of the former
  is entry \<open>b\<close> of the latter. Stacking the \<open>C\<close> vectors along a new choice dimension
  gives the score matrix.
\<close>

theorem choice_independence:
  assumes rl: "row_local model f V"
    and si: "shape input_ids = [B, C, L]"
    and sp: "shape position_ids = B # C # ps"
    and sa: "shape attention_mask = B # C # as"
    and st: "shape target_ids = [B, C, Lt]"
    and sm: "shape logit_mask = [B, C, Lt]"
    and wi: "wf_tensor input_ids" and wp: "wf_tensor position_ids"
    and wa: "wf_tensor attention_mask" and wt: "wf_tensor target_ids"
    and wm: "wf_tensor logit_mask"
    and fw: "ClozeModel_forward self model input_ids position_ids attention_mask target_ids
               logit_mask = (Inr (scores, mems), tr)"
    and c: "c < C"
  shows "shape scores = [B, C]
    \<and> (\<exists>scores_c mems_c tr_c.
          ClozeModel_forward self model (select_choice c input_ids)
            (select_choice c position_ids) (select_choice c attention_mask)
            (select_choice c target_ids) (select_choice c logit_mask)
          = (Inr (scores_c, mems_c), tr_c)
        \<and> shape scores_c = [B]
        \<and> (\<forall>b<B. at2 scores b c = data scores_c ! b))"
proof -
  let ?sm = "take_softmax self"
  let ?ic = "select_choice c input_ids" and ?pc = "select_choice c position_ids"
    and ?ac = "select_choice c attention_mask" and ?tc = "select_choice c target_ids"
    and ?mc = "select_choice c logit_mask"
  \<comment> \<open>the call on the whole batch\<close>
  from fw obtain nc inp pos att tgt msk outputs raw nrm where
    fl: "cloze_flatten input_ids position_ids attention_mask target_ids logit_mask
           = Inr (nc, inp, pos, att, tgt, msk)"
    and lm: "model inp pos att = Inr (outputs, mems)" and tr: "tr = [(inp, pos, att)]"
    and cl: "cloze_logits self outputs tgt msk = Inr raw"
    and cn: "cloze_normalize self raw msk = Inr nrm"
    and un: "unflatten nc nrm = Inr scores"
    unfolding ClozeModel_forward_Inr by blast
  note F = cloze_flatten_3d [OF fl si sp sa st sm]
  have Cpos: "0 < C" using c by simp
  have wfi: "wf_tensor inp" using wi si by (simp add: F(2) wf_tensor_def mult.assoc)
  have wfp: "wf_tensor pos" using wp sp by (simp add: F(3) wf_tensor_def mult.assoc)
  have wfa: "wf_tensor att" using wa sa by (simp add: F(4) wf_tensor_def mult.assoc)
  have wfm: "wf_tensor msk" using wm sm by (simp add: F(6) wf_tensor_def mult.assoc)
  let ?g = "\<lambda>n. f (row_at inp n) (row_at pos n) (row_at att n)"
  have flen: "\<And>i p a. length (f i p a) = length i * V"
    using row_local_length [OF rl] .
  have "shape inp = [B * C, L]" "shape pos = (B * C) # ps" "shape att = (B * C) # as"
    by (simp_all add: F(2) F(3) F(4))
  from row_localD [OF rl this wfi wfp wfa] obtain m0 where
    "model inp pos att = Inr (Tensor [B * C, L, V] (concat (map ?g [0..<B * C])), m0)"
    by blast
  with lm have out: "outputs = Tensor [B * C, L, V] (concat (map ?g [0..<B * C]))" by simp
  have lrow: "length (row_at inp n) = L" if "n < B * C" for n
  proof -
    have "n * L + L \<le> B * C * L" using mult_le_mono1 [of "n + 1" "B * C" L] that by simp
    then show ?thesis using wi si by (simp add: F(2) row_at_flat wf_tensor_def)
  qed
  have lg: "length (?g n) = L * V" if "n < B * C" for n
    using flen lrow [OF that] by simp
  note CL = cloze_logits_Inr [OF cl wfm]
  have t0: "shape tgt ! 0 = B * C" and t1: "shape tgt ! 1 = Lt" by (simp_all add: F(5))
  have rm: "length (shape msk) = 2" and m0: "shape msk ! 0 = shape tgt ! 0"
    by (simp_all add: F(5) F(6))
  note N = cloze_normalize_Inr [OF cn CL(4) CL(5) rm m0]
  have ds: "data scores = data nrm" using unflatten_data [OF un] .
  have ss: "shape scores = [B, C]"
  proof -
    from un F(1) have "reshape_infer nrm [C] = Inr scores" by (simp add: unflatten_def)
    from reshape_infer_Inr(2) [OF this] N(1) t0 Cpos show ?thesis by simp
  qed
  \<comment> \<open>the batch of choice \<open>c\<close>\<close>
  have rk2: "2 \<le> length (shape input_ids)" "2 \<le> length (shape position_ids)"
    "2 \<le> length (shape attention_mask)" "2 \<le> length (shape target_ids)"
    "2 \<le> length (shape logit_mask)"
    by (simp_all add: si sp sa st sm)
  have cc: "c < shape input_ids ! 1" "c < shape position_ids ! 1"
    "c < shape attention_mask ! 1" "c < shape target_ids ! 1" "c < shape logit_mask ! 1"
    using c by (simp_all add: si sp sa st sm)
  note SI = select_choice_props [OF wi rk2(1) cc(1)]
  note SP = select_choice_props [OF wp rk2(2) cc(2)]
  note SA = select_choice_props [OF wa rk2(3) cc(3)]
  note ST = select_choice_props [OF wt rk2(4) cc(4)]
  note SM = select_choice_props [OF wm rk2(5) cc(5)]
  have sic: "shape ?ic = [B, L]" using SI(1) by (simp add: si)
  have spc: "shape ?pc = B # ps" using SP(1) by (simp add: sp)
  have sac: "shape ?ac = B # as" using SA(1) by (simp add: sa)
  have stc: "shape ?tc = [B, Lt]" using ST(1) by (simp add: st)
  have smc: "shape ?mc = [B, Lt]" using SM(1) by (simp add: sm)
  let ?h = "\<lambda>b. f (row_at ?ic b) (row_at ?pc b) (row_at ?ac b)"
  from row_localD [OF rl sic spc sac SI(2) SP(2) SA(2)] obtain mc where
    lmc: "model ?ic ?pc ?ac = Inr (Tensor [B, L, V] (concat (map ?h [0..<B])), mc)"
    by blast
  let ?oc = "Tensor [B, L, V] (concat (map ?h [0..<B]))"
  have bc: "b * C + c < B * C" if "b < B" for b using flat_index_less [OF that c] .
  have rows: "?h b = ?g (b * C + c)" if "b < B" for b
  proof -
    have "row_at ?ic b = row_at inp (b * C + c)"
      using SI(3) [of b] that by (simp add: si F(2) row_at_flat)
    moreover have "row_at ?pc b = row_at pos (b * C + c)"
      using SP(3) [of b] that by (simp add: sp F(3) row_at_flat)
    moreover have "row_at ?ac b = row_at att (b * C + c)"
      using SA(3) [of b] that by (simp add: sa F(4) row_at_flat)
    ultimately show ?thesis by simp
  qed
  have lh: "length (?h b) = L * V" if "b < B" for b
    using rows [OF that] lg [OF bc [OF that]] by simp
  have tce: "data ?tc ! (b * Lt + p) = data target_ids ! ((b * C + c) * Lt + p)"
    if "b < B" "p < Lt" for b p
    using ST(4) [of b p] that by (simp add: st)
  have mce: "data ?mc ! (b * Lt + p) = data logit_mask ! ((b * C + c) * Lt + p)"
    if "b < B" "p < Lt" for b p
    using SM(4) [of b p] that by (simp add: sm)
  \<comment> \<open>the checks of the whole batch, at the rows of choice \<open>c\<close>\<close>
  have chk: "p < L \<and> index_ok V (data target_ids ! ((b * C + c) * Lt + p))"
    if "b < B" "p < Lt" for b p
    using CL(6) [of "b * C + c" p] bc [OF that(1)] that(2)
    by (simp add: t0 t1 out at2_def F(5))
  \<comment> \<open>the call on the batch of choice \<open>c\<close> returns\<close>
  have okc: "r < shape ?oc ! 0 \<and> p < shape ?oc ! 1 \<and> index_ok (shape ?oc ! 2) (at2 ?tc r p)"
    if "r < shape ?tc ! 0" "p < shape ?tc ! 1" for r p
  proof -
    from that have r: "r < B" and p: "p < Lt" by (simp_all add: stc)
    show ?thesis using chk [OF r p] tce [OF r p] r by (simp add: at2_def stc)
  qed
  from cloze_logits_total [of ?tc ?oc ?mc self, OF _ _ _ okc] obtain rawc where
    clc: "cloze_logits self ?oc ?tc ?mc = Inr rawc"
    by (auto simp: stc smc)
  note CC = cloze_logits_Inr [OF clc SM(2)]
  have rmc: "length (shape ?mc) = 2" and m0c: "shape ?mc ! 0 = shape ?tc ! 0"
    by (simp_all add: stc smc)
  from cloze_normalize_total [OF CC(4) rmc m0c, of self] obtain nrmc where
    cnc: "cloze_normalize self rawc ?mc = Inr nrmc" and snc: "shape nrmc = [B]"
    by (auto simp: stc)
  have rkc: "length (shape ?ic) \<noteq> 3" by (simp add: sic)
  have fwc: "ClozeModel_forward self model ?ic ?pc ?ac ?tc ?mc
      = (Inr (nrmc, mc), [(?ic, ?pc, ?ac)])"
    using rkc lmc clc cnc by (rule ClozeModel_forward_2d_intro)
  note Nc = cloze_normalize_Inr [OF cnc CC(4) CC(5) rmc m0c]
  \<comment> \<open>entry by entry\<close>
  have entry: "at2 scores b c = data nrmc ! b" if b: "b < B" for b
  proof -
    let ?r = "b * C + c"
    have r: "?r < shape tgt ! 0" using bc [OF b] t0 by simp
    have bt: "b < shape ?tc ! 0" using b by (simp add: stc)
    have Geq: "at3 (if ?sm then log_softmax ?oc else ?oc) b p
                  (norm_index V (data target_ids ! (?r * Lt + p)))
             = at3 (if ?sm then log_softmax outputs else outputs) ?r p
                  (norm_index V (data target_ids ! (?r * Lt + p)))"
      if "p < Lt" for p
      unfolding out
      using softmax_rows_eq [of B ?h L V "B * C" ?g b ?r p
          "norm_index V (data target_ids ! (?r * Lt + p))" ?sm]
        lh lg b bc [OF b] rows [OF b] chk [OF b that] norm_index_less
      by blast
    have num: "(\<Sum>p\<leftarrow>[0..<Lt]. at3 (if ?sm then log_softmax ?oc else ?oc) b p
                   (norm_index V (at2 ?tc b p)) * at2 ?mc b p)
             = (\<Sum>p\<leftarrow>[0..<Lt]. at3 (if ?sm then log_softmax outputs else outputs) ?r p
                   (norm_index V (at2 tgt ?r p)) * at2 msk ?r p)"
    proof (intro arg_cong [where f = sum_list] map_cong refl)
      fix p assume "p \<in> set [0..<Lt]"
      then have p: "p < Lt" by simp
      show "at3 (if ?sm then log_softmax ?oc else ?oc) b p
                   (norm_index V (at2 ?tc b p)) * at2 ?mc b p
          = at3 (if ?sm then log_softmax outputs else outputs) ?r p
                   (norm_index V (at2 tgt ?r p)) * at2 msk ?r p"
        using Geq [OF p] tce [OF b p] mce [OF b p]
        by (simp add: at2_def stc smc F(5) F(6))
    qed
    have den: "(\<Sum>p\<leftarrow>[0..<Lt]. data ?mc ! (b * Lt + p))
             = (\<Sum>p\<leftarrow>[0..<Lt]. data msk ! (?r * Lt + p))"
    proof (intro arg_cong [where f = sum_list] map_cong refl)
      fix p assume "p \<in> set [0..<Lt]"
      then have p: "p < Lt" by simp
      show "data ?mc ! (b * Lt + p) = data msk ! (?r * Lt + p)"
        using mce [OF b p] by (simp add: F(6))
    qed
    have tc1: "shape ?tc ! 1 = Lt" and mc1: "shape ?mc ! 1 = Lt" and oc2: "shape ?oc ! 2 = V"
      and o2: "shape outputs ! 2 = V" and m1: "shape msk ! 1 = Lt"
      by (simp_all add: stc smc out F(6))
    have rawe: "data rawc ! b = data raw ! ?r"
      using CC(7) [OF bt, unfolded tc1 oc2] CL(7) [OF r, unfolded t1 o2] num by simp
    have "at2 scores b c = data nrm ! ?r" by (simp add: at2_def ss ds)
    also have "\<dots> = data nrmc ! b"
      using N(3) [OF r, unfolded m1] Nc(3) [OF bt, unfolded mc1] rawe den by simp
    finally show ?thesis .
  qed
  show ?thesis using ss fwc snc entry by blast
qed

lemma example_row_fn_length: "length (example_row_fn i p a) = length i * 2"
  by (induction i) (simp_all add: example_row_fn_def)

lemma example_row_lm_row_local: "row_local example_row_lm example_row_fn 2"
  by (simp add: row_local_def example_row_fn_length example_row_lm_def)

theorem choice_independence_witness:
  "row_local example_row_lm example_row_fn 2
   \<and> shape choice_input_ids = [1, 2, 1]
   \<and> shape choice_position_ids = 1 # 2 # [1]
   \<and> shape choice_attention_mask = 1 # 2 # []
   \<and> shape choice_target_ids = [1, 2, 1]
   \<and> shape choice_logit_mask = [1, 2, 1]
   \<and> wf_tensor choice_input_ids \<and> wf_tensor choice_position_ids
   \<and> wf_tensor choice_attention_mask \<and> wf_tensor choice_target_ids
   \<and> wf_tensor choice_logit_mask
   \<and> ClozeModel_forward \<lparr>take_softmax = False, length_penalty = 0\<rparr> example_row_lm
        choice_input_ids choice_position_ids choice_attention_mask choice_target_ids
        choice_logit_mask
      = (Inr (Tensor [1, 2] [Fin 5, Fin 2], []),
         [(Tensor [2, 1] [5, 6], Tensor [2, 1] [0, 0], Tensor [2] [1, 2])])
   \<and> ClozeModel_forward \<lparr>take_softmax = False, length_penalty = 0\<rparr> example_row_lm
        (select_choice 1 choice_input_ids) (select_choice 1 choice_position_ids)
        (select_choice 1 choice_attention_mask) (select_choice 1 choice_target_ids)
        (select_choice 1 choice_logit_mask)
      = (Inr (Tensor [1] [Fin 2], []),
         [(Tensor [1, 1] [6], Tensor [1, 1] [0], Tensor [1] [2])])
   \<and> at2 (Tensor [1, 2] [Fin 5, Fin 2]) 0 1 = data (Tensor [1] [Fin 2]) ! 0"
proof -
  have sh: "shape choice_input_ids = [1, 2, 1]" "shape choice_position_ids = 1 # 2 # [1]"
    "shape choice_attention_mask = 1 # 2 # []" "shape choice_target_ids = [1, 2, 1]"
    "shape choice_logit_mask = [1, 2, 1]"
    by (simp_all add: choice_input_ids_def choice_position_ids_def choice_attention_mask_def
        choice_target_ids_def choice_logit_mask_def)
  have wf: "wf_tensor choice_input_ids" "wf_tensor choice_position_ids"
    "wf_tensor choice_attention_mask" "wf_tensor choice_target_ids"
    "wf_tensor choice_logit_mask"
    by (simp_all add: wf_tensor_def choice_input_ids_def choice_position_ids_def
        choice_attention_mask_def choice_target_ids_def choice_logit_mask_def)
  have fw: "ClozeModel_forward \<lparr>take_softmax = False, length_penalty = 0\<rparr> example_row_lm
        choice_input_ids choice_position_ids choice_attention_mask choice_target_ids
        choice_logit_mask
      = (Inr (Tensor [1, 2] [Fin 5, Fin 2], []),
         [(Tensor [2, 1] [5, 6], Tensor [2, 1] [0, 0], Tensor [2] [1, 2])])"
    by (simp add: ClozeModel_forward_def cloze_flatten_def flatten_last_def flatten_lead_def
        size_last_def reshape_infer_def cloze_logits_def cloze_normalize_def unflatten_def
        gather_targets_def tmul_def sum_dim1_def finite_tensor_def ebind_def index_ok_def
        norm_index_def upt_rec row_at_def Let_def example_row_lm_def example_row_fn_def
        choice_input_ids_def choice_position_ids_def choice_attention_mask_def
        choice_target_ids_def choice_logit_mask_def)
  have fwc: "ClozeModel_forward \<lparr>take_softmax = False, length_penalty = 0\<rparr> example_row_lm
        (select_choice 1 choice_input_ids) (select_choice 1 choice_position_ids)
        (select_choice 1 choice_attention_mask) (select_choice 1 choice_target_ids)
        (select_choice 1 choice_logit_mask)
      = (Inr (Tensor [1] [Fin 2], []),
         [(Tensor [1, 1] [6], Tensor [1, 1] [0], Tensor [1] [2])])"
    by (simp add: ClozeModel_forward_def cloze_flatten_def select_choice_def
        cloze_logits_def cloze_normalize_def unflatten_def
        gather_targets_def tmul_def sum_dim1_def finite_tensor_def ebind_def index_ok_def
        norm_index_def upt_rec row_at_def Let_def example_row_lm_def example_row_fn_def
        choice_input_ids_def choice_position_ids_def choice_attention_mask_def
        choice_target_ids_def choice_logit_mask_def)
  have c: "(1::nat) < 2" by simp
  from choice_independence [OF example_row_lm_row_local sh wf fw c] fwc
  have "at2 (Tensor [1, 2] [Fin 5, Fin 2]) 0 1 = data (Tensor [1] [Fin 2]) ! 0"
    by auto
  with example_row_lm_row_local sh wf fw fwc show ?thesis by blast
qed

end
